theory Spec2Isabelle
  imports Complex_Main
begin

section \<open>JavaScript values used by the page\<close>

text \<open>
  The development embeds the graph construction, layout wrapper and view derivation of
  \<^verbatim>\<open>src/app/page.tsx\<close>. The file holds two variants of the page component: the first
  (search-result panel) and the second (Docker filters). Both share the helper functions and
  the body of \<^verbatim>\<open>loadData\<close> word for word; they differ in the layout spacing, in
  \<^verbatim>\<open>handleSearch\<close> and in \<^verbatim>\<open>displayNodes\<close>. Where they differ the second variant's
  definition carries the suffix \<open>2\<close>.

  Strings are lists of bytes (UTF-8); the icons and the translated names are written as the
  bytes of the source text. An optional field is an \<open>option\<close>; a string is truthy when
  it is present and not empty.
\<close>

fun truthy :: "string option \<Rightarrow> bool" where
  "truthy None = False"
| "truthy (Some s) = (s \<noteq> [])"

text \<open>\<^verbatim>\<open>a || b\<close> on optional strings.\<close>

fun orElse :: "string option \<Rightarrow> string option \<Rightarrow> string option" where
  "orElse a b = (if truthy a then a else b)"

fun startsWith :: "string \<Rightarrow> string \<Rightarrow> bool" where
  "startsWith s [] = True"
| "startsWith [] (p # ps) = False"
| "startsWith (c # cs) (p # ps) = (c = p \<and> startsWith cs ps)"

text \<open>\<^verbatim>\<open>s.includes(p)\<close>: \<open>p\<close> occurs somewhere in \<open>s\<close>.\<close>

fun includes_str :: "string \<Rightarrow> string \<Rightarrow> bool" where
  "includes_str [] p = (p = [])"
| "includes_str (c # cs) p = (startsWith (c # cs) p \<or> includes_str cs p)"

text \<open>\<^verbatim>\<open>s.replace(p, r)\<close> with a string pattern: only the first occurrence is replaced.\<close>

fun replace :: "string \<Rightarrow> string \<Rightarrow> string \<Rightarrow> string" where
  "replace [] p r = (if p = [] then r else [])"
| "replace (c # cs) p r =
     (if startsWith (c # cs) p then r @ drop (length p) (c # cs) else c # replace cs p r)"

text \<open>\<^verbatim>\<open>s.split(sep)\<close> for a one-character separator; the result is never empty.\<close>

fun str_split :: "string \<Rightarrow> char \<Rightarrow> string list" where
  "str_split [] sep = [[]]"
| "str_split (c # cs) sep =
     (if c = sep then [] # str_split cs sep
      else (case str_split cs sep of [] \<Rightarrow> [[c]] | w # ws \<Rightarrow> (c # w) # ws))"

text \<open>\<^verbatim>\<open>xs.pop()\<close> read for its value: the last element, undefined on an empty array.\<close>

fun pop :: "'a list \<Rightarrow> 'a option" where
  "pop xs = (if xs = [] then None else Some (last xs))"

text \<open>Decimal rendering of an array index inside a template literal.\<close>

definition digit :: "nat \<Rightarrow> char" where
  "digit d = ''0123456789'' ! d"

function toString :: "nat \<Rightarrow> string" where
  "toString n = (if n < 10 then [digit n] else toString (n div 10) @ [digit (n mod 10)])"
  by pat_completeness auto
termination
  by (relation "measure (\<lambda>n. n)") auto

declare toString.simps [simp del]

section \<open>File types and node styling\<close>

record file_type_config =
  color :: string
  icon :: string
  type_label :: string
  textColor :: string

text \<open>The table \<^verbatim>\<open>FILE_TYPES\<close>, in source order.\<close>

definition FILE_TYPES :: "(string \<times> file_type_config) list" where
  "FILE_TYPES =
    [(''pages'', \<lparr>color = ''#16a34a'', icon = [CHR 0xF0, CHR 0x9F, CHR 0x93, CHR 0x84],
        type_label = ''Pages'', textColor = ''#ffffff''\<rparr>),
     (''components'', \<lparr>color = ''#2563eb'', icon = [CHR 0xF0, CHR 0x9F, CHR 0xA7, CHR 0xA9],
        type_label = ''Components'', textColor = ''#ffffff''\<rparr>),
     (''utils'', \<lparr>color = ''#64748b'', icon = [CHR 0xF0, CHR 0x9F, CHR 0x94, CHR 0xA7],
        type_label = ''Utils'', textColor = ''#ffffff''\<rparr>),
     (''lib'', \<lparr>color = ''#7c3aed'', icon = [CHR 0xF0, CHR 0x9F, CHR 0x93, CHR 0x9A],
        type_label = ''Libraries'', textColor = ''#ffffff''\<rparr>),
     (''hooks'', \<lparr>color = ''#dc2626'', icon = [CHR 0xF0, CHR 0x9F, CHR 0xAA, CHR 0x9D],
        type_label = ''Hooks'', textColor = ''#ffffff''\<rparr>),
     (''types'', \<lparr>color = ''#ea580c'', icon = [CHR 0xF0, CHR 0x9F, CHR 0x93, CHR 0x9D],
        type_label = ''Types'', textColor = ''#ffffff''\<rparr>),
     (''api'', \<lparr>color = ''#059669'', icon = [CHR 0xF0, CHR 0x9F, CHR 0x8C, CHR 0x90],
        type_label = ''API'', textColor = ''#ffffff''\<rparr>),
     (''default'', \<lparr>color = ''#1f2937'', icon = [CHR 0xF0, CHR 0x9F, CHR 0x93, CHR 0x81],
        type_label = ''Other'', textColor = ''#ffffff''\<rparr>),
     (''docker_api'', \<lparr>color = ''#1e40af'', icon = [CHR 0xF0, CHR 0x9F, CHR 0x94, CHR 0x8C],
        type_label = ''Docker API'', textColor = ''#ffffff''\<rparr>),
     (''docker_tool'', \<lparr>color = ''#059669'',
        icon = [CHR 0xF0, CHR 0x9F, CHR 0x9B, CHR 0xA0, CHR 0xEF, CHR 0xB8, CHR 0x8F],
        type_label = ''Docker Tool'', textColor = ''#ffffff''\<rparr>),
     (''docker_config'', \<lparr>color = ''#d97706'',
        icon = [CHR 0xE2, CHR 0x9A, CHR 0x99, CHR 0xEF, CHR 0xB8, CHR 0x8F],
        type_label = ''Docker Config'', textColor = ''#ffffff''\<rparr>),
     (''docker_service'', \<lparr>color = ''#7c3aed'', icon = [CHR 0xF0, CHR 0x9F, CHR 0x9A, CHR 0x80],
        type_label = ''Docker Service'', textColor = ''#ffffff''\<rparr>)]"

text \<open>
  \<^verbatim>\<open>FILE_TYPES\<close> is a plain object literal, so the operator \<^verbatim>\<open>in\<close> and an indexed read
  also see the members it inherits from \<^verbatim>\<open>Object.prototype\<close>. None of them has a
  \<^verbatim>\<open>color\<close>, \<^verbatim>\<open>icon\<close> or \<^verbatim>\<open>textColor\<close> of its own.
\<close>

definition inheritedKeys :: "string list" where
  "inheritedKeys =
    [''constructor'', ''hasOwnProperty'', ''isPrototypeOf'', ''propertyIsEnumerable'',
     ''toLocaleString'', ''toString'', ''valueOf'', ''__proto__'', ''__defineGetter__'',
     ''__defineSetter__'', ''__lookupGetter__'', ''__lookupSetter__'']"

definition inFILE_TYPES :: "string \<Rightarrow> bool" where
  "inFILE_TYPES k = (k \<in> set (map fst FILE_TYPES) \<or> k \<in> set inheritedKeys)"

text \<open>
  \<^verbatim>\<open>getFriendlyDockerName\<close> reads \<^verbatim>\<open>nameMap[name] || name\<close>: the translation of
  the table, the raw name where the table has none. \<^verbatim>\<open>nameMap\<close> is a plain object
  literal too, so a name that is a member of \<^verbatim>\<open>Object.prototype\<close> reads that member: the
  prototype object itself for \<^verbatim>\<open>__proto__\<close>, a built-in function for the others. The
  result is then not a string; where the page puts it into a label the member is rendered
  as text (\<open>memberText\<close>, in the form V8 prints a built-in function; other engines differ
  in white space).
\<close>

datatype friendly_name = FriendlyText string | InheritedMember string

definition memberText :: "string \<Rightarrow> string" where
  "memberText member =
     (if member = ''__proto__'' then ''[object Object]''
      else ''function '' @ (if member = ''constructor'' then ''Object'' else member) @
           ''() { [native code] }'')"

fun friendlyText :: "friendly_name \<Rightarrow> string" where
  "friendlyText (FriendlyText s) = s"
| "friendlyText (InheritedMember member) = memberText member"

definition nameMap :: "(string \<times> string) list" where
  "nameMap =
    [(''DockerAIEditorManager'', ''Docker AI '' @ [CHR 0xE7, CHR 0xB7, CHR 0xA8, CHR 0xE8, CHR 0xBC, CHR 0xAF, CHR 0xE5, CHR 0x99, CHR 0xA8, CHR 0xE7, CHR 0xAE, CHR 0xA1, CHR 0xE7, CHR 0x90, CHR 0x86, CHR 0xE5, CHR 0x99, CHR 0xA8]),
     (''createDockerToolkit'', [CHR 0xE5, CHR 0xBB, CHR 0xBA, CHR 0xE7, CHR 0xAB, CHR 0x8B] @ '' Docker '' @ [CHR 0xE5, CHR 0xB7, CHR 0xA5, CHR 0xE5, CHR 0x85, CHR 0xB7, CHR 0xE5, CHR 0x8C, CHR 0x85]),
     (''dockerConfigManager.autoDetectDockerContext'', ''Docker '' @ [CHR 0xE9, CHR 0x85, CHR 0x8D, CHR 0xE7, CHR 0xBD, CHR 0xAE, CHR 0xE8, CHR 0x87, CHR 0xAA, CHR 0xE5, CHR 0x8B, CHR 0x95, CHR 0xE6, CHR 0xAA, CHR 0xA2, CHR 0xE6, CHR 0xB8, CHR 0xAC]),
     (''DockerToolkit'', ''Docker '' @ [CHR 0xE5, CHR 0xB7, CHR 0xA5, CHR 0xE5, CHR 0x85, CHR 0xB7, CHR 0xE5, CHR 0x8C, CHR 0x85]),
     (''DockerContext'', ''Docker '' @ [CHR 0xE4, CHR 0xB8, CHR 0x8A, CHR 0xE4, CHR 0xB8, CHR 0x8B, CHR 0xE6, CHR 0x96, CHR 0x87]),
     (''dockerReadFile'', ''Docker '' @ [CHR 0xE8, CHR 0xAE, CHR 0x80, CHR 0xE5, CHR 0x8F, CHR 0x96, CHR 0xE6, CHR 0xAA, CHR 0x94, CHR 0xE6, CHR 0xA1, CHR 0x88]),
     (''dockerWriteFile'', ''Docker '' @ [CHR 0xE5, CHR 0xAF, CHR 0xAB, CHR 0xE5, CHR 0x85, CHR 0xA5, CHR 0xE6, CHR 0xAA, CHR 0x94, CHR 0xE6, CHR 0xA1, CHR 0x88]),
     (''dockerListDirectory'', ''Docker '' @ [CHR 0xE5, CHR 0x88, CHR 0x97, CHR 0xE5, CHR 0x87, CHR 0xBA, CHR 0xE7, CHR 0x9B, CHR 0xAE, CHR 0xE9, CHR 0x8C, CHR 0x84]),
     (''dockerFindFiles'', ''Docker '' @ [CHR 0xE6, CHR 0x90, CHR 0x9C, CHR 0xE5, CHR 0xB0, CHR 0x8B, CHR 0xE6, CHR 0xAA, CHR 0x94, CHR 0xE6, CHR 0xA1, CHR 0x88]),
     (''dockerCheckPathExists'', ''Docker '' @ [CHR 0xE6, CHR 0xAA, CHR 0xA2, CHR 0xE6, CHR 0x9F, CHR 0xA5, CHR 0xE8, CHR 0xB7, CHR 0xAF, CHR 0xE5, CHR 0xBE, CHR 0x91]),
     (''dockerGetProjectInfo'', ''Docker '' @ [CHR 0xE5, CHR 0x8F, CHR 0x96, CHR 0xE5, CHR 0xBE, CHR 0x97, CHR 0xE5, CHR 0xB0, CHR 0x88, CHR 0xE6, CHR 0xA1, CHR 0x88, CHR 0xE8, CHR 0xB3, CHR 0x87, CHR 0xE8, CHR 0xA8, CHR 0x8A]),
     (''securityValidator'', [CHR 0xE5, CHR 0xAE, CHR 0x89, CHR 0xE5, CHR 0x85, CHR 0xA8, CHR 0xE6, CHR 0x80, CHR 0xA7, CHR 0xE9, CHR 0xA9, CHR 0x97, CHR 0xE8, CHR 0xAD, CHR 0x89, CHR 0xE5, CHR 0x99, CHR 0xA8]),
     (''docker_start_dev_server'', ''Docker '' @ [CHR 0xE5, CHR 0x95, CHR 0x9F, CHR 0xE5, CHR 0x8B, CHR 0x95, CHR 0xE9, CHR 0x96, CHR 0x8B, CHR 0xE7, CHR 0x99, CHR 0xBC, CHR 0xE4, CHR 0xBC, CHR 0xBA, CHR 0xE6, CHR 0x9C, CHR 0x8D, CHR 0xE5, CHR 0x99, CHR 0xA8]),
     (''docker_restart_dev_server'', ''Docker '' @ [CHR 0xE9, CHR 0x87, CHR 0x8D, CHR 0xE5, CHR 0x95, CHR 0x9F, CHR 0xE9, CHR 0x96, CHR 0x8B, CHR 0xE7, CHR 0x99, CHR 0xBC, CHR 0xE4, CHR 0xBC, CHR 0xBA, CHR 0xE6, CHR 0x9C, CHR 0x8D, CHR 0xE5, CHR 0x99, CHR 0xA8]),
     (''docker_read_log_tail'', ''Docker '' @ [CHR 0xE8, CHR 0xAE, CHR 0x80, CHR 0xE5, CHR 0x8F, CHR 0x96, CHR 0xE6, CHR 0x97, CHR 0xA5, CHR 0xE8, CHR 0xAA, CHR 0x8C]),
     (''docker_check_health'', ''Docker '' @ [CHR 0xE5, CHR 0x81, CHR 0xA5, CHR 0xE5, CHR 0xBA, CHR 0xB7, CHR 0xE6, CHR 0xAA, CHR 0xA2, CHR 0xE6, CHR 0x9F, CHR 0xA5])]"

definition getFriendlyDockerName :: "string \<Rightarrow> friendly_name" where
  "getFriendlyDockerName name =
     (if name \<in> set inheritedKeys then InheritedMember name
      else FriendlyText
             (case orElse (map_of nameMap name) (Some name) of Some s \<Rightarrow> s | None \<Rightarrow> name))"

text \<open>
  \<^verbatim>\<open>getNodeType(id, nodeType)\<close>: an explicit type the table knows is returned as it is;
  otherwise the identifier is tested against the path patterns, top to bottom.
\<close>

definition getNodeType :: "string \<Rightarrow> string option \<Rightarrow> string" where
  "getNodeType ident nodeType =
     (if truthy nodeType \<and> inFILE_TYPES (the nodeType) then the nodeType
      else if includes_str ident ''pages/'' \<or> includes_str ident ''app/'' then ''pages''
      else if includes_str ident ''components/'' then ''components''
      else if includes_str ident ''utils/'' then ''utils''
      else if includes_str ident ''lib/'' then ''lib''
      else if includes_str ident ''hooks/'' \<or> includes_str ident ''use'' then ''hooks''
      else if includes_str ident ''types/'' \<or> includes_str ident ''.d.ts'' then ''types''
      else if includes_str ident ''api/'' then ''api''
      else ''default'')"

text \<open>
  \<^verbatim>\<open>FILE_TYPES[type]\<close> followed by a field read: the field of the table's own entry, or
  undefined (\<open>None\<close>) when \<open>type\<close> names an inherited member.
\<close>

definition configField :: "(file_type_config \<Rightarrow> string) \<Rightarrow> string \<Rightarrow> string option" where
  "configField f t = map_option f (map_of FILE_TYPES t)"

record node_style =
  background :: "string option"
  text_color :: "string option"
  fontSize :: nat
  fontWeight :: nat
  padding :: nat
  borderRadius :: nat
  border :: string
  opacity :: rat
  boxShadow :: string
  transition :: string
  backdropFilter :: string
  width :: "nat option"
  height :: "nat option"

definition getNodeStyle :: "string \<Rightarrow> string option \<Rightarrow> bool \<Rightarrow> bool \<Rightarrow> node_style" where
  "getNodeStyle ident nodeType isHighlighted isFiltered =
     (let t = getNodeType ident nodeType in
      \<lparr>background = (if isHighlighted then Some ''#fbbf24'' else configField color t),
       text_color = (if isHighlighted then Some ''#000000'' else configField textColor t),
       fontSize = 12,
       fontWeight = 600,
       padding = 10,
       borderRadius = 8,
       border = (if isHighlighted then ''3px solid #f59e0b''
                 else ''2px solid rgba(255,255,255,0.3)''),
       opacity = (if isFiltered then 3 / 10 else 1),
       boxShadow = (if isHighlighted then ''0 0 20px rgba(245, 158, 11, 0.6)''
                    else ''0 4px 8px rgba(0,0,0,0.15)''),
       transition = ''all 0.3s ease'',
       backdropFilter = ''blur(1px)'',
       width = None,
       height = None\<rparr>)"

section \<open>Input data\<close>

text \<open>
  The \<^verbatim>\<open>data\<close> object of a raw element (\<^verbatim>\<open>CytoscapeElement\<close>). The page tells a node
  from an edge by looking for the key \<^verbatim>\<open>id\<close> first, so one record with optional fields
  covers both shapes, and also an object that carries \<^verbatim>\<open>id\<close>, \<^verbatim>\<open>source\<close> and
  \<^verbatim>\<open>target\<close> together.
\<close>

record element_data =
  el_id :: "string option"
  el_source :: "string option"
  el_target :: "string option"
  el_type :: "string option"
  el_label :: "string option"
  el_sourceFile :: "string option"

record DockerAPI =
  name :: "string option"
  apiType :: "string option"
  description :: "string option"
  line :: "nat option"
  codeSnippet :: "string option"

record DockerAnalysisResult =
  hasDockerIntegration :: bool
  dockerTools :: "string list option"
  dockerApis :: "DockerAPI list option"
  summary :: string

text \<open>
  The Docker analysis object, as the list \<^verbatim>\<open>Object.entries\<close> makes of it: keys with their
  results, in enumeration order.
\<close>

type_synonym docker_data = "(string \<times> DockerAnalysisResult) list"

section \<open>Nodes and edges\<close>

datatype Position = PositionLeft | PositionRight

datatype docker_info =
    ApiInfo string friendly_name "string option" string DockerAPI
      \<comment> \<open>apiName, friendlyName, description, sourceFile, originalApi\<close>
  | ToolInfo string friendly_name string
      \<comment> \<open>tool, friendlyName, sourceFile\<close>

record node_data =
  label :: string
  fullPath :: string
  fileType :: string
  nodeType :: "string option"
  sourceFile :: "string option"
  dockerInfo :: "docker_info option"

record node =
  node_id :: string
  data :: node_data
  position :: "rat \<times> rat"
  sourcePosition :: Position
  targetPosition :: Position
  style :: node_style

record edge_style =
  stroke :: string
  strokeWidth :: nat
  strokeDasharray :: "string option"

record edge =
  edge_id :: string
  source :: string
  target :: string
  animated :: bool
  edge_style :: edge_style
  edge_type :: "string option"

section \<open>Building the graph (\<^verbatim>\<open>loadData\<close>)\<close>

text \<open>
  \<^verbatim>\<open>nodeMap\<close> is a JavaScript \<^verbatim>\<open>Map\<close>: \<^verbatim>\<open>set\<close> on a key already present replaces the
  value and keeps the key's place; a new key goes to the end. \<^verbatim>\<open>values()\<close> lists the values
  in that order.
\<close>

fun map_set :: "(string \<times> 'v) list \<Rightarrow> string \<Rightarrow> 'v \<Rightarrow> (string \<times> 'v) list" where
  "map_set [] k v = [(k, v)]"
| "map_set ((k', v') # m) k v = (if k' = k then (k, v) # m else (k', v') # map_set m k v)"

record builder =
  nodeMap :: "(string \<times> node) list"
  edgeList :: "edge list"

definition iconText :: "string \<Rightarrow> string" where
  "iconText t = (case configField icon t of Some i \<Rightarrow> i | None \<Rightarrow> ''undefined'')"

text \<open>The node object made for a node descriptor with identifier \<open>ident\<close>.\<close>

definition fileNode :: "string \<Rightarrow> element_data \<Rightarrow> node" where
  "fileNode ident el =
     (let nodeType = el_type el;
          providedLabel = el_label el;
          t = getNodeType ident nodeType;
          lbl = (if truthy providedLabel then the providedLabel
                 else iconText t @ '' '' @
                      the (orElse (pop (str_split ident CHR ''/'')) (Some ident)))
      in \<lparr>node_id = ident,
          data = \<lparr>label = lbl, fullPath = ident, fileType = t, nodeType = nodeType,
                  sourceFile = el_sourceFile el, dockerInfo = None\<rparr>,
          position = (0, 0),
          sourcePosition = PositionRight,
          targetPosition = PositionLeft,
          style = getNodeStyle ident nodeType False False\<rparr>)"

text \<open>The edge object made for an edge descriptor.\<close>

definition dependencyEdge :: "string \<Rightarrow> string \<Rightarrow> string option \<Rightarrow> edge" where
  "dependencyEdge src tgt ty =
     \<lparr>edge_id = src @ ''->'' @ tgt, source = src, target = tgt,
      animated = (ty = Some ''docker_integration''),
      edge_style =
        (if ty = Some ''docker_integration''
         then \<lparr>stroke = ''#3b82f6'', strokeWidth = 3, strokeDasharray = Some ''5,5''\<rparr>
         else \<lparr>stroke = ''#94a3b8'', strokeWidth = 2, strokeDasharray = None\<rparr>),
      edge_type = ty\<rparr>"

text \<open>
  \<^verbatim>\<open>if (!edgeList.find(edge => edge.id === edgeId)) edgeList.push(...)\<close>: the guard
  every edge of the page goes through.
\<close>

definition pushEdge :: "edge list \<Rightarrow> edge \<Rightarrow> edge list" where
  "pushEdge es e = (if find (\<lambda>x. edge_id x = edge_id e) es = None then es @ [e] else es)"

text \<open>The body of \<^verbatim>\<open>data.forEach\<close>: one raw element.\<close>

definition addElement :: "builder \<Rightarrow> element_data \<Rightarrow> builder" where
  "addElement b el =
     (case el_id el of
        Some ident \<Rightarrow> b\<lparr>nodeMap := map_set (nodeMap b) ident (fileNode ident el)\<rparr>
      | None \<Rightarrow>
          (case (el_source el, el_target el) of
             (Some src, Some tgt) \<Rightarrow>
               b\<lparr>edgeList := pushEdge (edgeList b) (dependencyEdge src tgt (el_type el))\<rparr>
           | _ \<Rightarrow> b))"

text \<open>The body of \<^verbatim>\<open>dockerApis.forEach\<close>: one API entry with its index.\<close>

definition apiNameOf :: "nat \<Rightarrow> DockerAPI \<Rightarrow> string" where
  "apiNameOf index api =
     the (orElse (orElse (name api) (apiType api)) (Some (''api_'' @ toString index)))"

definition dockerApiId :: "string \<Rightarrow> nat \<Rightarrow> DockerAPI \<Rightarrow> string" where
  "dockerApiId fileName index api =
     ''docker_api_'' @ fileName @ ''_'' @ apiNameOf index api @ ''_'' @ toString index"

definition dockerApiNode :: "string \<Rightarrow> nat \<Rightarrow> DockerAPI \<Rightarrow> node" where
  "dockerApiNode fileName index api =
     (let apiName = apiNameOf index api;
          friendlyName = getFriendlyDockerName apiName;
          ident = dockerApiId fileName index api
      in \<lparr>node_id = ident,
          data = \<lparr>label = [CHR 0xF0, CHR 0x9F, CHR 0x94, CHR 0x8C] @ '' '' @
                            friendlyText friendlyName,
                  fullPath = ident, fileType = ''docker_api'',
                  nodeType = Some ''docker_api'', sourceFile = Some fileName,
                  dockerInfo = Some (ApiInfo apiName friendlyName (description api)
                                       fileName api)\<rparr>,
          position = (0, 0),
          sourcePosition = PositionRight,
          targetPosition = PositionLeft,
          style = getNodeStyle ident (Some ''docker_api'') False False\<rparr>)"

definition dockerApiEdge :: "string \<Rightarrow> nat \<Rightarrow> DockerAPI \<Rightarrow> edge" where
  "dockerApiEdge fileName index api =
     \<lparr>edge_id = fileName @ ''->'' @ dockerApiId fileName index api,
      source = fileName, target = dockerApiId fileName index api, animated = True,
      edge_style = \<lparr>stroke = ''#1e40af'', strokeWidth = 2, strokeDasharray = Some ''3,3''\<rparr>,
      edge_type = Some ''docker_api_usage''\<rparr>"

definition addDockerApi :: "string \<Rightarrow> builder \<Rightarrow> nat \<times> DockerAPI \<Rightarrow> builder" where
  "addDockerApi fileName b ia =
     (let index = fst ia; api = snd ia in
      b\<lparr>nodeMap := map_set (nodeMap b) (dockerApiId fileName index api)
                    (dockerApiNode fileName index api),
        edgeList := pushEdge (edgeList b) (dockerApiEdge fileName index api)\<rparr>)"

text \<open>The body of \<^verbatim>\<open>dockerTools.forEach\<close>: one tool name with its index.\<close>

definition dockerToolId :: "string \<Rightarrow> nat \<Rightarrow> string \<Rightarrow> string" where
  "dockerToolId fileName index tool =
     ''docker_tool_'' @ fileName @ ''_'' @ tool @ ''_'' @ toString index"

definition dockerToolNode :: "string \<Rightarrow> nat \<Rightarrow> string \<Rightarrow> node" where
  "dockerToolNode fileName index tool =
     (let friendlyName = getFriendlyDockerName tool;
          ident = dockerToolId fileName index tool
      in \<lparr>node_id = ident,
          data = \<lparr>label = [CHR 0xF0, CHR 0x9F, CHR 0x9B, CHR 0xA0, CHR 0xEF, CHR 0xB8, CHR 0x8F]
                          @ '' '' @ friendlyText friendlyName,
                  fullPath = ident, fileType = ''docker_tool'',
                  nodeType = Some ''docker_tool'', sourceFile = Some fileName,
                  dockerInfo = Some (ToolInfo tool friendlyName fileName)\<rparr>,
          position = (0, 0),
          sourcePosition = PositionRight,
          targetPosition = PositionLeft,
          style = getNodeStyle ident (Some ''docker_tool'') False False\<rparr>)"

definition dockerToolEdge :: "string \<Rightarrow> nat \<Rightarrow> string \<Rightarrow> edge" where
  "dockerToolEdge fileName index tool =
     \<lparr>edge_id = fileName @ ''->'' @ dockerToolId fileName index tool,
      source = fileName, target = dockerToolId fileName index tool, animated = True,
      edge_style = \<lparr>stroke = ''#059669'', strokeWidth = 2, strokeDasharray = Some ''3,3''\<rparr>,
      edge_type = Some ''docker_tool_usage''\<rparr>"

definition addDockerTool :: "string \<Rightarrow> builder \<Rightarrow> nat \<times> string \<Rightarrow> builder" where
  "addDockerTool fileName b it =
     (let index = fst it; tool = snd it in
      b\<lparr>nodeMap := map_set (nodeMap b) (dockerToolId fileName index tool)
                    (dockerToolNode fileName index tool),
        edgeList := pushEdge (edgeList b) (dockerToolEdge fileName index tool)\<rparr>)"

text \<open>\<^verbatim>\<open>xs || []\<close> on an optional array.\<close>

fun orEmpty :: "'a list option \<Rightarrow> 'a list" where
  "orEmpty None = []"
| "orEmpty (Some xs) = xs"

text \<open>The body of \<^verbatim>\<open>Object.entries(dockerData).forEach\<close>: one file key with its result.\<close>

definition addDockerEntry :: "builder \<Rightarrow> string \<times> DockerAnalysisResult \<Rightarrow> builder" where
  "addDockerEntry b entry =
     (let fileKey = fst entry; analysis = snd entry in
      if hasDockerIntegration analysis
      then (let fileName = replace fileKey ''github:'' [];
                b1 = foldl (addDockerApi fileName) b
                       (List.enumerate 0 (orEmpty (dockerApis analysis)))
            in foldl (addDockerTool fileName) b1
                 (List.enumerate 0 (orEmpty (dockerTools analysis))))
      else b)"

text \<open>
  The synchronous core of \<^verbatim>\<open>loadData\<close>: raw elements first, the Docker entries after,
  then \<^verbatim>\<open>Array.from(nodeMap.values())\<close> and the edge list.
\<close>

definition rawPass :: "element_data list \<Rightarrow> builder" where
  "rawPass elements = foldl addElement \<lparr>nodeMap = [], edgeList = []\<rparr> elements"

definition dockerPass :: "builder \<Rightarrow> docker_data \<Rightarrow> builder" where
  "dockerPass b dockerData = foldl addDockerEntry b dockerData"

definition buildGraph :: "element_data list \<Rightarrow> docker_data \<Rightarrow> node list \<times> edge list" where
  "buildGraph elements dockerData =
     (let b = dockerPass (rawPass elements) dockerData
      in (map snd (nodeMap b), edgeList b))"

section \<open>Layout (\<^verbatim>\<open>getLayoutedElements\<close>)\<close>

text \<open>
  \<^verbatim>\<open>dagreGraph\<close> is one module-level graph object of the graph library, created once and
  handed to every call of \<^verbatim>\<open>getLayoutedElements\<close>. It is modelled by what has been
  registered in it: the graph label, the nodes with their labels and the edges, in
  registration order. The library's operations are written out as its interface documents
  them: \<^verbatim>\<open>setNode(v, label)\<close> adds the node or replaces its label; \<^verbatim>\<open>setEdge(v, w)\<close>
  leaves an existing edge alone and otherwise adds the edge, creating unlabelled nodes for
  endpoints that are not registered. Nothing in the page ever removes a node or an edge.
\<close>

record dagre_graph =
  graph_label :: "(string \<times> nat \<times> nat) option"
  dagre_nodes :: "(string \<times> (nat \<times> nat) option) list"
  dagre_edges :: "(string \<times> string) list"

definition dagreGraph :: dagre_graph where
  "dagreGraph = \<lparr>graph_label = None, dagre_nodes = [], dagre_edges = []\<rparr>"

definition nodeWidth :: nat where
  "nodeWidth = 200"

definition nodeHeight :: nat where
  "nodeHeight = 50"

definition setGraph :: "dagre_graph \<Rightarrow> string \<times> nat \<times> nat \<Rightarrow> dagre_graph" where
  "setGraph g l = g\<lparr>graph_label := Some l\<rparr>"

definition setNode :: "dagre_graph \<Rightarrow> string \<Rightarrow> nat \<times> nat \<Rightarrow> dagre_graph" where
  "setNode g v l = g\<lparr>dagre_nodes := map_set (dagre_nodes g) v (Some l)\<rparr>"

definition ensureNode :: "dagre_graph \<Rightarrow> string \<Rightarrow> dagre_graph" where
  "ensureNode g v =
     (if v \<in> set (map fst (dagre_nodes g)) then g
      else g\<lparr>dagre_nodes := dagre_nodes g @ [(v, None)]\<rparr>)"

definition setEdge :: "dagre_graph \<Rightarrow> string \<Rightarrow> string \<Rightarrow> dagre_graph" where
  "setEdge g v w =
     (if (v, w) \<in> set (dagre_edges g) then g
      else (let g1 = ensureNode (ensureNode g v) w
            in g1\<lparr>dagre_edges := dagre_edges g1 @ [(v, w)]\<rparr>))"

text \<open>
  \<^verbatim>\<open>dagre.layout(dagreGraph)\<close> followed by \<^verbatim>\<open>dagreGraph.node(id)\<close>: the layout algorithm
  belongs to the library and is a parameter here, a function from everything registered in
  the graph to the centre it assigns to each node.
\<close>

type_synonym dagre_layout = "dagre_graph \<Rightarrow> string \<Rightarrow> rat \<times> rat"

definition layoutWith ::
  "string \<times> nat \<times> nat \<Rightarrow> dagre_layout \<Rightarrow> dagre_graph \<Rightarrow> node list \<Rightarrow> edge list
     \<Rightarrow> dagre_graph \<times> node list \<times> edge list" where
  "layoutWith cfg layout g ns es =
     (let g1 = setGraph g cfg;
          g2 = foldl (\<lambda>g n. setNode g (node_id n) (nodeWidth, nodeHeight)) g1 ns;
          g3 = foldl (\<lambda>g e. setEdge g (source e) (target e)) g2 es;
          pos = layout g3;
          layoutedNodes =
            map (\<lambda>n. n\<lparr>position := (fst (pos (node_id n)) - of_nat nodeWidth / 2,
                                     snd (pos (node_id n)) - of_nat nodeHeight / 2),
                        style := (style n)\<lparr>width := Some nodeWidth,
                                            height := Some nodeHeight\<rparr>\<rparr>) ns
      in (g3, layoutedNodes, es))"

text \<open>The first variant lays out with node separation 30 and rank separation 300.\<close>

definition getLayoutedElements ::
  "dagre_layout \<Rightarrow> dagre_graph \<Rightarrow> node list \<Rightarrow> edge list
     \<Rightarrow> dagre_graph \<times> node list \<times> edge list" where
  "getLayoutedElements = layoutWith (''LR'', 30, 300)"

text \<open>The second variant lays out with node separation 40 and rank separation 80.\<close>

definition getLayoutedElements2 ::
  "dagre_layout \<Rightarrow> dagre_graph \<Rightarrow> node list \<Rightarrow> edge list
     \<Rightarrow> dagre_graph \<times> node list \<times> edge list" where
  "getLayoutedElements2 = layoutWith (''LR'', 40, 80)"

section \<open>The page's state and handlers\<close>

text \<open>
  The component state that the graph, the search and the filters use. \<^verbatim>\<open>fuse\<close> is the
  search index of the search library, modelled by the items its \<^verbatim>\<open>search\<close> returns for a
  term, best match first. \<^verbatim>\<open>activeFilters\<close> is a JavaScript \<^verbatim>\<open>Set\<close>, kept as the list
  of its members in insertion order. The fields \<^verbatim>\<open>searchResults\<close> and
  \<^verbatim>\<open>showSearchResults\<close> belong to the first variant, \<^verbatim>\<open>showDockerOnly\<close> and
  \<^verbatim>\<open>showDockerNodes\<close> to the second.
\<close>

record app_state =
  nodes :: "node list"
  edges :: "edge list"
  originalNodes :: "node list"
  selectedNode :: "node option"
  searchTerm :: string
  highlightedNode :: "string option"
  activeFilters :: "string list"
  fuse :: "(string \<Rightarrow> node list) option"
  dockerAnalysis :: docker_data
  searchResults :: "node list"
  showSearchResults :: bool
  showDockerOnly :: bool
  showDockerNodes :: bool

text \<open>
  \<^verbatim>\<open>dagre.layout\<close> may raise instead of returning (the library does for some graphs).
  \<^verbatim>\<open>getLayoutedElements\<close> above is what the function returns when the layout returns;
  whether the layout raises on the graph it is given is a second parameter of the callers,
  \<open>layoutThrows\<close>, and they take the source's path for an exception there. The nodes
  and edges are registered in \<^verbatim>\<open>dagreGraph\<close> before the layout runs, so they stay
  registered on that path.

  \<^verbatim>\<open>loadData\<close> once both fetches have answered: the annotations are stored first; then,
  inside \<^verbatim>\<open>try\<close>, build, lay out, store, and make the search index (\<open>newFuse\<close> stands
  for its constructor over the built nodes). The \<^verbatim>\<open>catch\<close> stores empty nodes, edges and
  original nodes, and makes no index.
\<close>

definition loadData ::
  "dagre_layout \<Rightarrow> (dagre_graph \<Rightarrow> bool) \<Rightarrow> (node list \<Rightarrow> string \<Rightarrow> node list)
     \<Rightarrow> dagre_graph \<Rightarrow> element_data list \<Rightarrow> docker_data \<Rightarrow> app_state
     \<Rightarrow> dagre_graph \<times> app_state" where
  "loadData layout layoutThrows newFuse g elements dockerData s =
     (let built = buildGraph elements dockerData;
          initialNodes = fst built;
          laid = getLayoutedElements layout g initialNodes (snd built)
      in if layoutThrows (fst laid)
         then (fst laid,
               s\<lparr>dockerAnalysis := dockerData, nodes := [], edges := [],
                 originalNodes := []\<rparr>)
         else (fst laid,
               s\<lparr>dockerAnalysis := dockerData,
                 originalNodes := initialNodes,
                 nodes := fst (snd laid),
                 edges := snd (snd laid),
                 fuse := Some (newFuse initialNodes)\<rparr>))"

text \<open>The same in the second variant, with its own layout spacing.\<close>

definition loadData2 ::
  "dagre_layout \<Rightarrow> (dagre_graph \<Rightarrow> bool) \<Rightarrow> (node list \<Rightarrow> string \<Rightarrow> node list)
     \<Rightarrow> dagre_graph \<Rightarrow> element_data list \<Rightarrow> docker_data \<Rightarrow> app_state
     \<Rightarrow> dagre_graph \<times> app_state" where
  "loadData2 layout layoutThrows newFuse g elements dockerData s =
     (let built = buildGraph elements dockerData;
          initialNodes = fst built;
          laid = getLayoutedElements2 layout g initialNodes (snd built)
      in if layoutThrows (fst laid)
         then (fst laid,
               s\<lparr>dockerAnalysis := dockerData, nodes := [], edges := [],
                 originalNodes := []\<rparr>)
         else (fst laid,
               s\<lparr>dockerAnalysis := dockerData,
                 originalNodes := initialNodes,
                 nodes := fst (snd laid),
                 edges := snd (snd laid),
                 fuse := Some (newFuse initialNodes)\<rparr>))"

text \<open>
  \<^verbatim>\<open>term.trim()\<close> removes white space and line terminators from both ends. The list holds
  their UTF-8 encodings: U+0009 to U+000D, U+0020, U+00A0, U+1680, U+2000 to U+200A, U+2028,
  U+2029, U+202F, U+205F, U+3000 and U+FEFF.
\<close>

definition whiteSpace :: "string list" where
  "whiteSpace =
    [[CHR 0x09], [CHR 0x0A], [CHR 0x0B], [CHR 0x0C], [CHR 0x0D], [CHR 0x20],
     [CHR 0xC2, CHR 0xA0], [CHR 0xE1, CHR 0x9A, CHR 0x80],
     [CHR 0xE2, CHR 0x80, CHR 0x80], [CHR 0xE2, CHR 0x80, CHR 0x81],
     [CHR 0xE2, CHR 0x80, CHR 0x82], [CHR 0xE2, CHR 0x80, CHR 0x83],
     [CHR 0xE2, CHR 0x80, CHR 0x84], [CHR 0xE2, CHR 0x80, CHR 0x85],
     [CHR 0xE2, CHR 0x80, CHR 0x86], [CHR 0xE2, CHR 0x80, CHR 0x87],
     [CHR 0xE2, CHR 0x80, CHR 0x88], [CHR 0xE2, CHR 0x80, CHR 0x89],
     [CHR 0xE2, CHR 0x80, CHR 0x8A], [CHR 0xE2, CHR 0x80, CHR 0xA8],
     [CHR 0xE2, CHR 0x80, CHR 0xA9], [CHR 0xE2, CHR 0x80, CHR 0xAF],
     [CHR 0xE2, CHR 0x81, CHR 0x9F], [CHR 0xE3, CHR 0x80, CHR 0x80],
     [CHR 0xEF, CHR 0xBB, CHR 0xBF]]"

text \<open>Strip leading occurrences of the given tokens.\<close>

function stripTokens :: "string list \<Rightarrow> string \<Rightarrow> string" where
  "stripTokens toks s =
     (case find (\<lambda>w. startsWith s w) toks of
        None \<Rightarrow> s
      | Some w \<Rightarrow> (if w = [] then s else stripTokens toks (drop (length w) s)))"
  by pat_completeness auto

termination stripTokens
proof (relation "measure (\<lambda>(toks, s). length s)")
  show "wf (measure (\<lambda>(toks, s). length s))"
    by simp
next
  fix toks :: "string list" and s w :: string
  assume f: "find (\<lambda>w. startsWith s w) toks = Some w" and ne: "w \<noteq> []"
  have len: "startsWith t v \<Longrightarrow> length v \<le> length t" for t v :: string
    by (induction t v rule: startsWith.induct) auto
  from f have "startsWith s w"
    by (auto simp: find_Some_iff)
  then have "length w \<le> length s"
    by (rule len)
  with ne show "((toks, drop (length w) s), (toks, s)) \<in> measure (\<lambda>(toks, s). length s)"
    by (cases w) auto
qed

declare stripTokens.simps [simp del]

definition trimStart :: "string \<Rightarrow> string" where
  "trimStart s = stripTokens whiteSpace s"

definition trimEnd :: "string \<Rightarrow> string" where
  "trimEnd s = rev (stripTokens (map rev whiteSpace) (rev s))"

definition trim :: "string \<Rightarrow> string" where
  "trim s = trimEnd (trimStart s)"

text \<open>\<^verbatim>\<open>handleSearch\<close> of the first variant: all results go to the panel.\<close>

definition handleSearch :: "app_state \<Rightarrow> string \<Rightarrow> app_state" where
  "handleSearch s term =
     (let s1 = s\<lparr>searchTerm := term\<rparr> in
      if trim term = [] \<or> fuse s = None
      then s1\<lparr>highlightedNode := None, searchResults := [], showSearchResults := False\<rparr>
      else (let foundNodes = the (fuse s) term;
                s2 = s1\<lparr>searchResults := foundNodes,
                        showSearchResults := (length foundNodes > 0)\<rparr>
            in if length foundNodes > 0
               then s2\<lparr>highlightedNode := Some (node_id (hd foundNodes))\<rparr>
               else s2))"

text \<open>
  \<^verbatim>\<open>selectNodeAndMove\<close>: select and highlight. (It also asks the rendering surface to
  centre the camera on the node, which leaves the state alone.)
\<close>

definition selectNodeAndMove :: "app_state \<Rightarrow> node \<Rightarrow> app_state" where
  "selectNodeAndMove s n = s\<lparr>selectedNode := Some n, highlightedNode := Some (node_id n)\<rparr>"

text \<open>\<^verbatim>\<open>handleSearch\<close> of the second variant: the best match is selected.\<close>

definition handleSearch2 :: "app_state \<Rightarrow> string \<Rightarrow> app_state" where
  "handleSearch2 s term =
     (let s1 = s\<lparr>searchTerm := term\<rparr> in
      if trim term = [] \<or> fuse s = None
      then s1\<lparr>highlightedNode := None\<rparr>
      else (let results = the (fuse s) term
            in if length results > 0 then selectNodeAndMove s1 (hd results) else s1))"

definition toggleFilter :: "app_state \<Rightarrow> string \<Rightarrow> app_state" where
  "toggleFilter s fileType' =
     (let newFilters = activeFilters s in
      s\<lparr>activeFilters :=
          (if fileType' \<in> set newFilters then removeAll fileType' newFilters
           else newFilters @ [fileType'])\<rparr>)"

text \<open>The argument of \<^verbatim>\<open>toggleDockerFilter\<close>: the string \<^verbatim>\<open>'files'\<close> or \<^verbatim>\<open>'nodes'\<close>.\<close>

datatype docker_filter = files | nodes_filter

definition toggleDockerFilter :: "app_state \<Rightarrow> docker_filter \<Rightarrow> app_state" where
  "toggleDockerFilter s ty =
     (if ty = files then s\<lparr>showDockerOnly := \<not> showDockerOnly s\<rparr>
      else s\<lparr>showDockerNodes := \<not> showDockerNodes s\<rparr>)"

text \<open>
  \<^verbatim>\<open>handleRelayout\<close> has no \<^verbatim>\<open>try\<close>: an exception of the layout leaves the handler
  before \<^verbatim>\<open>setNodes\<close>, and the state is as it was.
\<close>

definition handleRelayout ::
  "dagre_layout \<Rightarrow> (dagre_graph \<Rightarrow> bool) \<Rightarrow> dagre_graph \<Rightarrow> app_state
     \<Rightarrow> dagre_graph \<times> app_state" where
  "handleRelayout layout layoutThrows g s =
     (let laid = getLayoutedElements layout g (nodes s) (edges s)
      in if layoutThrows (fst laid) then (fst laid, s)
         else (fst laid, s\<lparr>nodes := fst (snd laid)\<rparr>))"

definition handleRelayout2 ::
  "dagre_layout \<Rightarrow> (dagre_graph \<Rightarrow> bool) \<Rightarrow> dagre_graph \<Rightarrow> app_state
     \<Rightarrow> dagre_graph \<times> app_state" where
  "handleRelayout2 layout layoutThrows g s =
     (let laid = getLayoutedElements2 layout g (nodes s) (edges s)
      in if layoutThrows (fst laid) then (fst laid, s)
         else (fst laid, s\<lparr>nodes := fst (snd laid)\<rparr>))"

definition onNodeClick :: "app_state \<Rightarrow> node \<Rightarrow> app_state" where
  "onNodeClick s n = s\<lparr>selectedNode := Some n, highlightedNode := Some (node_id n)\<rparr>"

section \<open>The displayed graph\<close>

text \<open>The restyling both variants of \<^verbatim>\<open>displayNodes\<close> map over the nodes.\<close>

definition restyle :: "app_state \<Rightarrow> node \<Rightarrow> node" where
  "restyle s n =
     n\<lparr>style := getNodeStyle (node_id n) (nodeType (data n))
                  (Some (node_id n) = highlightedNode s)
                  (length (activeFilters s) > 0 \<and>
                   getNodeType (node_id n) (nodeType (data n)) \<notin> set (activeFilters s))\<rparr>"

text \<open>\<^verbatim>\<open>displayNodes\<close> of the first variant: every node, restyled.\<close>

definition displayNodes :: "app_state \<Rightarrow> node list" where
  "displayNodes s = map (restyle s) (nodes s)"

text \<open>\<^verbatim>\<open>node.data.nodeType?.startsWith('docker_')\<close>, read as a condition.\<close>

definition isDockerNode :: "node \<Rightarrow> bool" where
  "isDockerNode n = (case nodeType (data n) of None \<Rightarrow> False | Some t \<Rightarrow> startsWith t ''docker_'')"

text \<open>
  \<^verbatim>\<open>dockerAnalysis[keyWithGithub] || dockerAnalysis[keyWithoutGithub]\<close> and then
  \<^verbatim>\<open>dockerData?.hasDockerIntegration\<close>, read as a condition.
\<close>

definition nodeHasDockerIntegration :: "docker_data \<Rightarrow> node \<Rightarrow> bool" where
  "nodeHasDockerIntegration dockerData n =
     (case (case map_of dockerData (''github:'' @ node_id n) of
              Some a \<Rightarrow> Some a
            | None \<Rightarrow> map_of dockerData (node_id n)) of
        None \<Rightarrow> False
      | Some a \<Rightarrow> hasDockerIntegration a)"

text \<open>The predicate of \<^verbatim>\<open>nodes.filter\<close> in the second variant.\<close>

definition keepNode :: "app_state \<Rightarrow> node \<Rightarrow> bool" where
  "keepNode s n =
     (if showDockerOnly s \<and> \<not> isDockerNode n \<and> \<not> nodeHasDockerIntegration (dockerAnalysis s) n
      then False
      else if isDockerNode n \<and> \<not> showDockerNodes s then False
      else True)"

text \<open>\<^verbatim>\<open>displayNodes\<close> of the second variant: filter, then restyle.\<close>

definition displayNodes2 :: "app_state \<Rightarrow> node list" where
  "displayNodes2 s = map (restyle s) (filter (keepNode s) (nodes s))"

text \<open>
  What the page hands to the rendering surface: \<^verbatim>\<open>nodes={displayNodes} edges={edges}\<close>,
  the same in both variants.
\<close>

definition displayGraph :: "app_state \<Rightarrow> node list \<times> edge list" where
  "displayGraph s = (displayNodes s, edges s)"

definition displayGraph2 :: "app_state \<Rightarrow> node list \<times> edge list" where
  "displayGraph2 s = (displayNodes2 s, edges s)"

section \<open>What the build registers, in order\<close>

text \<open>
  The build keeps two independent pieces of state, the node map and the edge list. The
  lists below name what the passes hand to \<^verbatim>\<open>nodeMap.set\<close> and to the guarded
  \<^verbatim>\<open>edgeList.push\<close>, in the order they do it; the lemmas that follow show that the build
  is exactly the fold of \<open>map_set\<close> and of \<open>pushEdge\<close> over them.
\<close>

definition setNodes :: "(string \<times> node) list \<Rightarrow> node list \<Rightarrow> (string \<times> node) list" where
  "setNodes m ns = foldl (\<lambda>m n. map_set m (node_id n) n) m ns"

definition rawNodes :: "element_data list \<Rightarrow> node list" where
  "rawNodes elements =
     concat (map (\<lambda>el. case el_id el of Some ident \<Rightarrow> [fileNode ident el] | None \<Rightarrow> []) elements)"

definition rawEdges :: "element_data list \<Rightarrow> edge list" where
  "rawEdges elements =
     concat (map (\<lambda>el. case el_id el of
                          Some ident \<Rightarrow> []
                        | None \<Rightarrow> (case (el_source el, el_target el) of
                                     (Some src, Some tgt) \<Rightarrow> [dependencyEdge src tgt (el_type el)]
                                   | _ \<Rightarrow> [])) elements)"

definition fileNameOf :: "string \<Rightarrow> string" where
  "fileNameOf fileKey = replace fileKey ''github:'' []"

definition apiNodes :: "string \<Rightarrow> DockerAPI list \<Rightarrow> node list" where
  "apiNodes fileName apis = map (\<lambda>ia. dockerApiNode fileName (fst ia) (snd ia)) (List.enumerate 0 apis)"

definition toolNodes :: "string \<Rightarrow> string list \<Rightarrow> node list" where
  "toolNodes fileName tools = map (\<lambda>it. dockerToolNode fileName (fst it) (snd it)) (List.enumerate 0 tools)"

definition apiEdges :: "string \<Rightarrow> DockerAPI list \<Rightarrow> edge list" where
  "apiEdges fileName apis = map (\<lambda>ia. dockerApiEdge fileName (fst ia) (snd ia)) (List.enumerate 0 apis)"

definition toolEdges :: "string \<Rightarrow> string list \<Rightarrow> edge list" where
  "toolEdges fileName tools = map (\<lambda>it. dockerToolEdge fileName (fst it) (snd it)) (List.enumerate 0 tools)"

text \<open>The capability nodes and edges of one entry whose flag is set.\<close>

definition entryNodes :: "string \<times> DockerAnalysisResult \<Rightarrow> node list" where
  "entryNodes entry =
     apiNodes (fileNameOf (fst entry)) (orEmpty (dockerApis (snd entry))) @
     toolNodes (fileNameOf (fst entry)) (orEmpty (dockerTools (snd entry)))"

definition entryEdges :: "string \<times> DockerAnalysisResult \<Rightarrow> edge list" where
  "entryEdges entry =
     apiEdges (fileNameOf (fst entry)) (orEmpty (dockerApis (snd entry))) @
     toolEdges (fileNameOf (fst entry)) (orEmpty (dockerTools (snd entry)))"

definition integrated :: "docker_data \<Rightarrow> docker_data" where
  "integrated dockerData = filter (\<lambda>entry. hasDockerIntegration (snd entry)) dockerData"

definition capNodes :: "docker_data \<Rightarrow> node list" where
  "capNodes dockerData = concat (map entryNodes (integrated dockerData))"

definition capEdges :: "docker_data \<Rightarrow> edge list" where
  "capEdges dockerData = concat (map entryEdges (integrated dockerData))"

text \<open>Every value of the node map sits under its own identifier.\<close>

definition keyed :: "(string \<times> node) list \<Rightarrow> bool" where
  "keyed m = list_all (\<lambda>kv. node_id (snd kv) = fst kv) m"

section \<open>Concrete inputs\<close>

text \<open>A node descriptor and an edge descriptor with nothing but the required keys.\<close>

definition nodeDescriptor :: "string \<Rightarrow> element_data" where
  "nodeDescriptor ident =
     \<lparr>el_id = Some ident, el_source = None, el_target = None, el_type = None,
      el_label = None, el_sourceFile = None\<rparr>"

definition edgeDescriptor :: "string \<Rightarrow> string \<Rightarrow> element_data" where
  "edgeDescriptor src tgt =
     \<lparr>el_id = None, el_source = Some src, el_target = Some tgt, el_type = None,
      el_label = None, el_sourceFile = None\<rparr>"

definition labelledNode :: "string \<Rightarrow> string \<Rightarrow> element_data" where
  "labelledNode ident lbl = (nodeDescriptor ident)\<lparr>el_label := Some lbl\<rparr>"

text \<open>Scenario A: two files and one dependency.\<close>

definition scenarioA :: "element_data list" where
  "scenarioA = [nodeDescriptor ''a.ts'', nodeDescriptor ''b.ts'', edgeDescriptor ''a.ts'' ''b.ts'']"

text \<open>Scenario B: one file with one Docker API and one Docker tool.\<close>

definition readApi :: DockerAPI where
  "readApi = \<lparr>name = None, apiType = Some ''read'', description = Some ''x'', line = None,
              codeSnippet = None\<rparr>"

definition scenarioB :: docker_data where
  "scenarioB =
    [(''github:a.ts'',
      \<lparr>hasDockerIntegration = True, dockerTools = Some [''compose''],
       dockerApis = Some [readApi], summary = ''s''\<rparr>)]"

text \<open>Scenario C: the same edge descriptor twice.\<close>

definition scenarioC :: "element_data list" where
  "scenarioC = [edgeDescriptor ''a'' ''b'', edgeDescriptor ''a'' ''b'']"

text \<open>The state a freshly mounted page starts from.\<close>

definition initialState :: app_state where
  "initialState =
     \<lparr>nodes = [], edges = [], originalNodes = [], selectedNode = None, searchTerm = [],
      highlightedNode = None, activeFilters = [], fuse = None, dockerAnalysis = [],
      searchResults = [], showSearchResults = False, showDockerOnly = False,
      showDockerNodes = True\<rparr>"

text \<open>The members of a list without repetition, in the order of their first occurrence.\<close>

fun firstOccurrences :: "'a list \<Rightarrow> 'a list" where
  "firstOccurrences [] = []"
| "firstOccurrences (x # xs) = x # filter (\<lambda>y. y \<noteq> x) (firstOccurrences xs)"

text \<open>
  A capability node with the entry it was made from (\<^verbatim>\<open>dockerInfo.originalApi\<close>)
  blanked out: what is left is everything the page computes from the entry.
\<close>

definition blankApi :: DockerAPI where
  "blankApi = \<lparr>name = None, apiType = None, description = None, line = None, codeSnippet = None\<rparr>"

fun blankOriginal :: "docker_info \<Rightarrow> docker_info" where
  "blankOriginal (ApiInfo apiName friendlyName descr sourceFile' originalApi) =
     ApiInfo apiName friendlyName descr sourceFile' blankApi"
| "blankOriginal (ToolInfo tool friendlyName sourceFile') = ToolInfo tool friendlyName sourceFile'"

definition withoutOriginal :: "node \<Rightarrow> node" where
  "withoutOriginal n = n\<lparr>data := (data n)\<lparr>dockerInfo := map_option blankOriginal (dockerInfo (data n))\<rparr>\<rparr>"

text \<open>An API entry that carries neither \<^verbatim>\<open>name\<close> nor \<^verbatim>\<open>apiType\<close>.\<close>

definition namelessApi :: DockerAPI where
  "namelessApi = \<lparr>name = None, apiType = None, description = Some ''x'', line = None,
                  codeSnippet = None\<rparr>"

text \<open>
  Scenario B's annotations with a second API entry, the one without a name, behind the
  first.
\<close>

definition twoApis :: docker_data where
  "twoApis =
    [(''github:a.ts'',
      \<lparr>hasDockerIntegration = True, dockerTools = Some [''compose''],
       dockerApis = Some [readApi, namelessApi], summary = ''s''\<rparr>)]"

text \<open>The same with eleven entries in front of the nameless one, and no tool.\<close>

definition twelveApis :: docker_data where
  "twelveApis =
    [(''github:a.ts'',
      \<lparr>hasDockerIntegration = True, dockerTools = None,
       dockerApis = Some (replicate 11 readApi @ [namelessApi]), summary = ''s''\<rparr>)]"

section \<open>Category inference as a rule table\<close>

text \<open>
  The inference of \<^verbatim>\<open>getNodeType\<close> as an ordered table, read top to bottom until one
  row matches: each row names the substrings the source looks for anywhere in the
  identifier, and the category it answers.
\<close>

definition categoryRules :: "(string list \<times> string) list" where
  "categoryRules =
    [([''pages/'', ''app/''], ''pages''),
     ([''components/''], ''components''),
     ([''utils/''], ''utils''),
     ([''lib/''], ''lib''),
     ([''hooks/'', ''use''], ''hooks''),
     ([''types/'', ''.d.ts''], ''types''),
     ([''api/''], ''api'')]"

definition inferCategory :: "string \<Rightarrow> string" where
  "inferCategory ident =
     (case find (\<lambda>rule. list_ex (includes_str ident) (fst rule)) categoryRules of
        Some rule \<Rightarrow> snd rule
      | None \<Rightarrow> ''default'')"

text \<open>
  The same table in the words of the specification: page directory, component directory,
  util directory, library directory, hook directory or \<open>use\<close> prefix, type directory or
  \<open>.d\<close> suffix, api directory. The specification does not spell the directories; they are
  taken as the source has them. A \<open>use\<close> prefix is read as a path segment that starts
  with \<open>use\<close> (the identifier itself, a directory or the file name), a \<open>.d\<close> suffix as
  the identifier ending in \<open>.d\<close> once its last extension is taken off, as in
  \<open>env.d.ts\<close>. A valid explicit category is one of the categories of the table
  \<^verbatim>\<open>FILE_TYPES\<close>.
\<close>

definition endsWith :: "string \<Rightarrow> string \<Rightarrow> bool" where
  "endsWith s p = startsWith (rev s) (rev p)"

definition usePrefix :: "string \<Rightarrow> bool" where
  "usePrefix ident = list_ex (\<lambda>segment. startsWith segment ''use'') (str_split ident CHR ''/'')"

definition withoutExtension :: "string \<Rightarrow> string" where
  "withoutExtension s = rev (drop 1 (dropWhile (\<lambda>c. c \<noteq> CHR ''.'') (rev s)))"

definition dSuffix :: "string \<Rightarrow> bool" where
  "dSuffix ident = endsWith (withoutExtension ident) ''.d''"

definition claimedRules :: "((string \<Rightarrow> bool) \<times> string) list" where
  "claimedRules =
    [(\<lambda>ident. includes_str ident ''pages/'' \<or> includes_str ident ''app/'', ''pages''),
     (\<lambda>ident. includes_str ident ''components/'', ''components''),
     (\<lambda>ident. includes_str ident ''utils/'', ''utils''),
     (\<lambda>ident. includes_str ident ''lib/'', ''lib''),
     (\<lambda>ident. includes_str ident ''hooks/'' \<or> usePrefix ident, ''hooks''),
     (\<lambda>ident. includes_str ident ''types/'' \<or> dSuffix ident, ''types''),
     (\<lambda>ident. includes_str ident ''api/'', ''api'')]"

definition claimedCategory :: "string \<Rightarrow> string" where
  "claimedCategory ident =
     (case find (\<lambda>rule. fst rule ident) claimedRules of
        Some rule \<Rightarrow> snd rule
      | None \<Rightarrow> ''default'')"

definition knownCategory :: "string \<Rightarrow> bool" where
  "knownCategory ty = (ty \<in> set (map fst FILE_TYPES))"

section \<open>Strings of white space\<close>

text \<open>
  A string made of white space only: it is empty, or it starts with a white space character
  and the rest is made of white space only.
\<close>

function whiteSpaceOnly :: "string \<Rightarrow> bool" where
  "whiteSpaceOnly s =
     (s = [] \<or>
      list_ex (\<lambda>w. if w \<noteq> [] \<and> startsWith s w then whiteSpaceOnly (drop (length w) s)
                    else False) whiteSpace)"
  by pat_completeness auto
termination
proof (relation "measure length")
  show "wf (measure length)"
    by simp
next
  fix s w :: string
  assume "w \<noteq> [] \<and> startsWith s w"
  then have ne: "w \<noteq> []" and sw: "startsWith s w"
    by simp_all
  have len: "startsWith t v \<Longrightarrow> length v \<le> length t" for t v :: string
    by (induction t v rule: startsWith.induct) auto
  from sw have "length w \<le> length s"
    by (rule len)
  with ne show "(drop (length w) s, s) \<in> measure length"
    by (cases w) auto
qed

declare whiteSpaceOnly.simps [simp del]

section \<open>Concrete states\<close>

text \<open>A stand-in for the layout library that puts every node at the origin.\<close>

definition originLayout :: dagre_layout where
  "originLayout g v = (0, 0)"

text \<open>A layout that never raises.\<close>

definition neverThrows :: "dagre_graph \<Rightarrow> bool" where
  "neverThrows g = False"

text \<open>A stand-in for the search index that finds nothing.\<close>

definition emptyFuse :: "node list \<Rightarrow> string \<Rightarrow> node list" where
  "emptyFuse ns t = []"

text \<open>The page after loading Scenario A with no annotations, in the first variant.\<close>

definition loadedA :: app_state where
  "loadedA = snd (loadData originLayout neverThrows emptyFuse dagreGraph scenarioA [] initialState)"

text \<open>The same in the second variant.\<close>

definition loadedA2 :: app_state where
  "loadedA2 = snd (loadData2 originLayout neverThrows emptyFuse dagreGraph scenarioA [] initialState)"

text \<open>
  The second variant after loading Scenario A's elements with Scenario B's annotations, and
  then with the Docker-only filter switched on and the Docker nodes switched off.
\<close>

definition loadedB2 :: app_state where
  "loadedB2 = snd (loadData2 originLayout neverThrows emptyFuse dagreGraph scenarioA scenarioB initialState)"

definition filteredB2 :: app_state where
  "filteredB2 = toggleDockerFilter (toggleDockerFilter loadedB2 files) nodes_filter"

section \<open>Capability nodes and edges of a file\<close>





section \<open>The build as two folds\<close>

lemma nodeMap_addElement:
  "nodeMap (addElement b el) =
     setNodes (nodeMap b) (case el_id el of Some ident \<Rightarrow> [fileNode ident el] | None \<Rightarrow> [])"
  by (simp add: addElement_def setNodes_def fileNode_def Let_def split: option.splits prod.splits)

lemma edgeList_addElement:
  "edgeList (addElement b el) =
     foldl pushEdge (edgeList b)
       (case el_id el of
          Some ident \<Rightarrow> []
        | None \<Rightarrow> (case (el_source el, el_target el) of
                     (Some src, Some tgt) \<Rightarrow> [dependencyEdge src tgt (el_type el)]
                   | _ \<Rightarrow> []))"
  by (simp add: addElement_def split: option.splits prod.splits)

lemma setNodes_append: "setNodes m (xs @ ys) = setNodes (setNodes m xs) ys"
  by (simp add: setNodes_def)

lemma setNodes_Nil: "setNodes m [] = m"
  by (simp add: setNodes_def)

lemma setNodes_Cons: "setNodes m (n # ns) = setNodes (map_set m (node_id n) n) ns"
  by (simp add: setNodes_def)

lemma nodeMap_foldl_addElement:
  "nodeMap (foldl addElement b els) = setNodes (nodeMap b) (rawNodes els)"
proof (induction els arbitrary: b)
  case Nil
  then show ?case by (simp add: rawNodes_def setNodes_Nil)
next
  case (Cons el els)
  have "rawNodes (el # els) =
          (case el_id el of Some ident \<Rightarrow> [fileNode ident el] | None \<Rightarrow> []) @ rawNodes els"
    by (simp add: rawNodes_def)
  then show ?case
    using Cons.IH [of "addElement b el"]
    by (simp add: nodeMap_addElement setNodes_append)
qed

lemma edgeList_foldl_addElement:
  "edgeList (foldl addElement b els) = foldl pushEdge (edgeList b) (rawEdges els)"
proof (induction els arbitrary: b)
  case Nil
  then show ?case by (simp add: rawEdges_def)
next
  case (Cons el els)
  have "rawEdges (el # els) =
          (case el_id el of
             Some ident \<Rightarrow> []
           | None \<Rightarrow> (case (el_source el, el_target el) of
                        (Some src, Some tgt) \<Rightarrow> [dependencyEdge src tgt (el_type el)]
                      | _ \<Rightarrow> [])) @ rawEdges els"
    by (simp add: rawEdges_def)
  then show ?case
    using Cons.IH [of "addElement b el"]
    by (simp add: edgeList_addElement)
qed

lemma node_id_dockerApiNode [simp]: "node_id (dockerApiNode f i api) = dockerApiId f i api"
  by (simp add: dockerApiNode_def Let_def)

lemma node_id_dockerToolNode [simp]: "node_id (dockerToolNode f i t) = dockerToolId f i t"
  by (simp add: dockerToolNode_def Let_def)

lemma nodeMap_foldl_addDockerApi:
  "nodeMap (foldl (addDockerApi f) b xs) =
     setNodes (nodeMap b) (map (\<lambda>ia. dockerApiNode f (fst ia) (snd ia)) xs)"
  by (induction xs arbitrary: b) (simp_all add: setNodes_Nil setNodes_Cons addDockerApi_def Let_def)

lemma edgeList_foldl_addDockerApi:
  "edgeList (foldl (addDockerApi f) b xs) =
     foldl pushEdge (edgeList b) (map (\<lambda>ia. dockerApiEdge f (fst ia) (snd ia)) xs)"
  by (induction xs arbitrary: b) (simp_all add: addDockerApi_def Let_def)

lemma nodeMap_foldl_addDockerTool:
  "nodeMap (foldl (addDockerTool f) b xs) =
     setNodes (nodeMap b) (map (\<lambda>it. dockerToolNode f (fst it) (snd it)) xs)"
  by (induction xs arbitrary: b) (simp_all add: setNodes_Nil setNodes_Cons addDockerTool_def Let_def)

lemma edgeList_foldl_addDockerTool:
  "edgeList (foldl (addDockerTool f) b xs) =
     foldl pushEdge (edgeList b) (map (\<lambda>it. dockerToolEdge f (fst it) (snd it)) xs)"
  by (induction xs arbitrary: b) (simp_all add: addDockerTool_def Let_def)

lemma nodeMap_addDockerEntry:
  "nodeMap (addDockerEntry b entry) =
     setNodes (nodeMap b) (if hasDockerIntegration (snd entry) then entryNodes entry else [])"
  by (simp add: addDockerEntry_def Let_def entryNodes_def apiNodes_def toolNodes_def
      fileNameOf_def nodeMap_foldl_addDockerApi nodeMap_foldl_addDockerTool setNodes_append
      setNodes_Nil)

lemma edgeList_addDockerEntry:
  "edgeList (addDockerEntry b entry) =
     foldl pushEdge (edgeList b) (if hasDockerIntegration (snd entry) then entryEdges entry else [])"
  by (simp add: addDockerEntry_def Let_def entryEdges_def apiEdges_def toolEdges_def
      fileNameOf_def edgeList_foldl_addDockerApi edgeList_foldl_addDockerTool)

lemma capNodes_Cons:
  "capNodes (entry # dd) =
     (if hasDockerIntegration (snd entry) then entryNodes entry else []) @ capNodes dd"
  by (simp add: capNodes_def integrated_def)

lemma capEdges_Cons:
  "capEdges (entry # dd) =
     (if hasDockerIntegration (snd entry) then entryEdges entry else []) @ capEdges dd"
  by (simp add: capEdges_def integrated_def)

lemma capNodes_append: "capNodes (xs @ ys) = capNodes xs @ capNodes ys"
  by (simp add: capNodes_def integrated_def)

lemma capEdges_append: "capEdges (xs @ ys) = capEdges xs @ capEdges ys"
  by (simp add: capEdges_def integrated_def)

lemma nodeMap_dockerPass: "nodeMap (dockerPass b dd) = setNodes (nodeMap b) (capNodes dd)"
proof (induction dd arbitrary: b)
  case Nil
  then show ?case by (simp add: dockerPass_def capNodes_def integrated_def setNodes_Nil)
next
  case (Cons entry dd)
  have "nodeMap (dockerPass b (entry # dd)) = nodeMap (dockerPass (addDockerEntry b entry) dd)"
    by (simp add: dockerPass_def)
  also have "\<dots> = setNodes (nodeMap (addDockerEntry b entry)) (capNodes dd)"
    by (rule Cons.IH)
  finally show ?case
    by (simp only: nodeMap_addDockerEntry capNodes_Cons setNodes_append)
qed

lemma edgeList_dockerPass: "edgeList (dockerPass b dd) = foldl pushEdge (edgeList b) (capEdges dd)"
proof (induction dd arbitrary: b)
  case Nil
  then show ?case by (simp add: dockerPass_def capEdges_def integrated_def)
next
  case (Cons entry dd)
  have "edgeList (dockerPass b (entry # dd)) = edgeList (dockerPass (addDockerEntry b entry) dd)"
    by (simp add: dockerPass_def)
  also have "\<dots> = foldl pushEdge (edgeList (addDockerEntry b entry)) (capEdges dd)"
    by (rule Cons.IH)
  finally show ?case
    by (simp only: edgeList_addDockerEntry capEdges_Cons foldl_append)
qed

lemma fst_buildGraph:
  "fst (buildGraph elements dd) = map snd (setNodes [] (rawNodes elements @ capNodes dd))"
  by (simp add: buildGraph_def Let_def nodeMap_dockerPass rawPass_def nodeMap_foldl_addElement
      setNodes_append)

lemma snd_buildGraph:
  "snd (buildGraph elements dd) = foldl pushEdge [] (rawEdges elements @ capEdges dd)"
  by (simp add: buildGraph_def Let_def edgeList_dockerPass rawPass_def edgeList_foldl_addElement)

section \<open>Facts about the node map and the guarded push\<close>

lemma map_fst_map_set: "set (map fst (map_set m k v)) = insert k (set (map fst m))"
  by (induction m k v rule: map_set.induct) auto

lemma distinct_map_set: "distinct (map fst m) \<Longrightarrow> distinct (map fst (map_set m k v))"
proof (induction m k v rule: map_set.induct)
  case (1 k v)
  then show ?case by simp
next
  case (2 k' v' m k v)
  then show ?case
    using map_fst_map_set [of m k v] by auto
qed

lemma map_of_map_set: "map_of (map_set m k v) = (map_of m)(k \<mapsto> v)"
  by (induction m k v rule: map_set.induct) auto

lemma keys_setNodes: "set (map fst (setNodes m ns)) = set (map fst m) \<union> set (map node_id ns)"
proof (induction ns arbitrary: m)
  case Nil
  then show ?case by (simp add: setNodes_Nil)
next
  case (Cons n ns)
  show ?case
    unfolding setNodes_Cons Cons.IH map_fst_map_set by auto
qed

lemma distinct_setNodes: "distinct (map fst m) \<Longrightarrow> distinct (map fst (setNodes m ns))"
proof (induction ns arbitrary: m)
  case Nil
  then show ?case by (simp add: setNodes_Nil)
next
  case (Cons n ns)
  then show ?case
    unfolding setNodes_Cons by (simp add: distinct_map_set)
qed

lemma keyed_map_set: "keyed m \<Longrightarrow> keyed (map_set m (node_id n) n)"
  unfolding keyed_def
  by (induction m "node_id n" n rule: map_set.induct) auto

lemma keyed_setNodes: "keyed m \<Longrightarrow> keyed (setNodes m ns)"
proof (induction ns arbitrary: m)
  case Nil
  then show ?case by (simp add: setNodes_Nil)
next
  case (Cons n ns)
  then show ?case
    unfolding setNodes_Cons by (simp add: keyed_map_set)
qed

lemma keyed_ids: "keyed m \<Longrightarrow> map node_id (map snd m) = map fst m"
  unfolding keyed_def by (induction m) auto

lemma keyed_find: "keyed m \<Longrightarrow> find (\<lambda>n. node_id n = i) (map snd m) = map_of m i"
  unfolding keyed_def by (induction m) auto

lemma map_of_setNodes:
  "map_of (setNodes m ns) i =
     (if filter (\<lambda>n. node_id n = i) ns = [] then map_of m i
      else Some (last (filter (\<lambda>n. node_id n = i) ns)))"
proof (induction ns arbitrary: m)
  case Nil
  then show ?case by (simp add: setNodes_Nil)
next
  case (Cons n ns)
  show ?case
    unfolding setNodes_Cons Cons.IH by (simp add: map_of_map_set)
qed

lemma pushEdge_iff:
  "pushEdge es e = (if edge_id e \<in> set (map edge_id es) then es else es @ [e])"
proof -
  have "(find (\<lambda>x. edge_id x = edge_id e) es = None) = (edge_id e \<notin> set (map edge_id es))"
    by (induction es) auto
  then show ?thesis
    by (simp add: pushEdge_def)
qed

lemma set_foldl_pushEdge: "set (foldl pushEdge es xs) \<subseteq> set es \<union> set xs"
proof (induction xs arbitrary: es)
  case Nil
  then show ?case by simp
next
  case (Cons x xs)
  show ?case
    using Cons.IH [of "pushEdge es x"] by (auto simp: pushEdge_iff split: if_splits)
qed

lemma ids_foldl_pushEdge:
  "set (map edge_id (foldl pushEdge es xs)) = set (map edge_id es) \<union> set (map edge_id xs)"
proof (induction xs arbitrary: es)
  case Nil
  then show ?case by simp
next
  case (Cons x xs)
  show ?case
    unfolding foldl_Cons Cons.IH by (auto simp: pushEdge_iff)
qed

lemma distinct_foldl_pushEdge:
  "distinct (map edge_id es) \<Longrightarrow> distinct (map edge_id (foldl pushEdge es xs))"
proof (induction xs arbitrary: es)
  case Nil
  then show ?case by simp
next
  case (Cons x xs)
  have "distinct (map edge_id (pushEdge es x))"
    using Cons.prems by (auto simp: pushEdge_iff)
  then show ?case
    unfolding foldl_Cons by (rule Cons.IH)
qed

lemma find_append:
  "find P (xs @ ys) = (case find P xs of None \<Rightarrow> find P ys | Some x \<Rightarrow> Some x)"
  by (induction xs) auto

lemma find_SomeD: "find P xs = Some x \<Longrightarrow> x \<in> set xs \<and> P x"
  by (induction xs) (auto split: if_splits)

lemma find_foldl_pushEdge:
  "find (\<lambda>e. edge_id e = j) (foldl pushEdge es xs) = find (\<lambda>e. edge_id e = j) (es @ xs)"
proof (induction xs arbitrary: es)
  case Nil
  then show ?case by simp
next
  case (Cons x xs)
  have "find (\<lambda>e. edge_id e = j) (pushEdge es x @ xs) = find (\<lambda>e. edge_id e = j) (es @ x # xs)"
    by (auto simp: pushEdge_iff find_append find_None_iff split: option.splits dest: find_SomeD)
  then show ?case
    unfolding foldl_Cons Cons.IH by simp
qed


lemma keyed_built: "keyed (setNodes [] ns)"
  by (rule keyed_setNodes) (simp add: keyed_def)

lemma node_ids_buildGraph:
  "map node_id (fst (buildGraph elements dd)) =
     map fst (setNodes [] (rawNodes elements @ capNodes dd))"
  by (simp only: fst_buildGraph keyed_ids [OF keyed_built])

lemma set_node_ids_buildGraph:
  "set (map node_id (fst (buildGraph elements dd))) =
     set (map node_id (rawNodes elements)) \<union> set (map node_id (capNodes dd))"
  unfolding node_ids_buildGraph keys_setNodes by simp

lemma distinct_node_ids_buildGraph: "distinct (map node_id (fst (buildGraph elements dd)))"
  unfolding node_ids_buildGraph by (rule distinct_setNodes) simp

lemma distinct_edge_ids_buildGraph: "distinct (map edge_id (snd (buildGraph elements dd)))"
  unfolding snd_buildGraph by (rule distinct_foldl_pushEdge) simp

section \<open>Endpoints of edges\<close>

text \<open>The two lists of descriptors, read off the raw elements.\<close>

lemma rawNodes_iff:
  "n \<in> set (rawNodes elements) \<longleftrightarrow>
     (\<exists>el \<in> set elements. \<exists>ident. el_id el = Some ident \<and> n = fileNode ident el)"
proof (induction elements)
  case Nil
  then show ?case by (simp add: rawNodes_def)
next
  case (Cons el els)
  have "rawNodes (el # els) =
          (case el_id el of Some ident \<Rightarrow> [fileNode ident el] | None \<Rightarrow> []) @ rawNodes els"
    by (simp add: rawNodes_def)
  then show ?case
    using Cons.IH by (cases "el_id el") auto
qed

lemma rawEdges_iff:
  "e \<in> set (rawEdges elements) \<longleftrightarrow>
     (\<exists>el \<in> set elements. \<exists>src tgt. el_id el = None \<and> el_source el = Some src \<and>
        el_target el = Some tgt \<and> e = dependencyEdge src tgt (el_type el))"
proof (induction elements)
  case Nil
  then show ?case by (simp add: rawEdges_def)
next
  case (Cons el els)
  have "rawEdges (el # els) =
          (case el_id el of
             Some ident \<Rightarrow> []
           | None \<Rightarrow> (case (el_source el, el_target el) of
                        (Some src, Some tgt) \<Rightarrow> [dependencyEdge src tgt (el_type el)]
                      | _ \<Rightarrow> [])) @ rawEdges els"
    by (simp add: rawEdges_def)
  then show ?case
    using Cons.IH by (cases "el_id el"; cases "el_source el"; cases "el_target el") auto
qed

lemma targets_entryEdges: "map target (entryEdges entry) = map node_id (entryNodes entry)"
  by (simp add: entryEdges_def entryNodes_def apiEdges_def toolEdges_def apiNodes_def
      toolNodes_def dockerApiEdge_def dockerToolEdge_def comp_def)

lemma targets_capEdges: "map target (capEdges dd) = map node_id (capNodes dd)"
  by (simp add: capEdges_def capNodes_def map_concat comp_def targets_entryEdges)

lemma edge_of_buildGraph:
  "e \<in> set (snd (buildGraph elements dd)) \<Longrightarrow> e \<in> set (rawEdges elements) \<or> e \<in> set (capEdges dd)"
  using set_foldl_pushEdge [of "[]" "rawEdges elements @ capEdges dd"]
  by (auto simp: snd_buildGraph)

text \<open>
  C1, as the code has it. The build adds every edge descriptor as it comes and never looks
  for its endpoints among the nodes. What holds: the target of a capability edge is always a
  node of the graph; all endpoints are nodes whenever the raw list has a node descriptor for
  both ends of each edge descriptor and for the owning file of each capability edge; and
  the id of every edge descriptor is the id of an edge of the graph.
\<close>

theorem buildGraph_endpoints:
  "(\<forall>e \<in> set (snd (buildGraph elements dd)).
      e \<in> set (capEdges dd) \<longrightarrow> target e \<in> set (map node_id (fst (buildGraph elements dd)))) \<and>
   ((\<forall>e \<in> set (rawEdges elements).
        source e \<in> set (map node_id (rawNodes elements)) \<and>
        target e \<in> set (map node_id (rawNodes elements))) \<and>
    (\<forall>e \<in> set (capEdges dd). source e \<in> set (map node_id (rawNodes elements))) \<longrightarrow>
    (\<forall>e \<in> set (snd (buildGraph elements dd)).
        source e \<in> set (map node_id (fst (buildGraph elements dd))) \<and>
        target e \<in> set (map node_id (fst (buildGraph elements dd))))) \<and>
   set (map edge_id (rawEdges elements)) \<subseteq> set (map edge_id (snd (buildGraph elements dd)))"
proof (intro conjI ballI impI)
  fix e
  assume "e \<in> set (capEdges dd)"
  then have "target e \<in> set (map target (capEdges dd))"
    by simp
  then show "target e \<in> set (map node_id (fst (buildGraph elements dd)))"
    unfolding targets_capEdges set_node_ids_buildGraph by simp
next
  fix e
  assume closed: "(\<forall>e \<in> set (rawEdges elements).
        source e \<in> set (map node_id (rawNodes elements)) \<and>
        target e \<in> set (map node_id (rawNodes elements))) \<and>
    (\<forall>e \<in> set (capEdges dd). source e \<in> set (map node_id (rawNodes elements)))"
    and e: "e \<in> set (snd (buildGraph elements dd))"
  from e consider (raw) "e \<in> set (rawEdges elements)" | (cap) "e \<in> set (capEdges dd)"
    using edge_of_buildGraph by blast
  then have "source e \<in> set (map node_id (rawNodes elements)) \<and>
             (target e \<in> set (map node_id (rawNodes elements)) \<or>
              target e \<in> set (map node_id (capNodes dd)))"
  proof cases
    case raw
    with closed show ?thesis by blast
  next
    case cap
    then have "target e \<in> set (map target (capEdges dd))"
      by simp
    with cap closed show ?thesis
      unfolding targets_capEdges by blast
  qed
  then show "source e \<in> set (map node_id (fst (buildGraph elements dd)))"
    and "target e \<in> set (map node_id (fst (buildGraph elements dd)))"
    unfolding set_node_ids_buildGraph by auto
next
  show "set (map edge_id (rawEdges elements)) \<subseteq> set (map edge_id (snd (buildGraph elements dd)))"
    unfolding snd_buildGraph ids_foldl_pushEdge by auto
qed

lemma toString_0: "toString 0 = ''0''"
  by (simp add: toString.simps digit_def)

lemmas build_eval =
  buildGraph_def rawPass_def dockerPass_def addElement_def nodeDescriptor_def
  edgeDescriptor_def labelledNode_def addDockerEntry_def addDockerApi_def addDockerTool_def pushEdge_def dependencyEdge_def
  dockerApiEdge_def dockerToolEdge_def dockerApiId_def dockerToolId_def apiNameOf_def
  enumerate_eq_zip toString_0 Let_def

lemmas lists_eval =
  rawNodes_def rawEdges_def capNodes_def capEdges_def integrated_def entryNodes_def
  entryEdges_def apiNodes_def toolNodes_def apiEdges_def toolEdges_def fileNameOf_def
  nodeDescriptor_def edgeDescriptor_def dependencyEdge_def dockerApiEdge_def
  dockerToolEdge_def dockerApiId_def dockerToolId_def apiNameOf_def enumerate_eq_zip
  toString_0

text \<open>
  Scenario A together with Scenario B: every endpoint has its node descriptor, and all three
  edges of the graph end in nodes of the graph.
\<close>

theorem buildGraph_endpoints_witness:
  "list_all (\<lambda>e. source e \<in> set (map node_id (fst (buildGraph scenarioA scenarioB))) \<and>
                 target e \<in> set (map node_id (fst (buildGraph scenarioA scenarioB))))
     (snd (buildGraph scenarioA scenarioB)) \<and>
   map (\<lambda>e. (source e, target e)) (snd (buildGraph scenarioA scenarioB)) =
     [(''a.ts'', ''b.ts''), (''a.ts'', ''docker_api_a.ts_read_0''),
      (''a.ts'', ''docker_tool_a.ts_compose_0'')]"
proof -
  have ids: "map node_id (rawNodes scenarioA) = [''a.ts'', ''b.ts'']"
    by (simp add: scenarioA_def lists_eval fileNode_def Let_def)
  have raw: "map (\<lambda>e. (source e, target e)) (rawEdges scenarioA) = [(''a.ts'', ''b.ts'')]"
    by (simp add: scenarioA_def lists_eval)
  have cap: "map source (capEdges scenarioB) = [''a.ts'', ''a.ts'']"
    by (simp add: scenarioB_def lists_eval readApi_def)
  have h1: "\<forall>e \<in> set (rawEdges scenarioA).
              source e \<in> set (map node_id (rawNodes scenarioA)) \<and>
              target e \<in> set (map node_id (rawNodes scenarioA))"
  proof
    fix e
    assume "e \<in> set (rawEdges scenarioA)"
    then have "(source e, target e) \<in> set (map (\<lambda>e. (source e, target e)) (rawEdges scenarioA))"
      by simp
    then show "source e \<in> set (map node_id (rawNodes scenarioA)) \<and>
               target e \<in> set (map node_id (rawNodes scenarioA))"
      unfolding raw ids by simp
  qed
  have h2: "\<forall>e \<in> set (capEdges scenarioB). source e \<in> set (map node_id (rawNodes scenarioA))"
  proof
    fix e
    assume "e \<in> set (capEdges scenarioB)"
    then have "source e \<in> set (map source (capEdges scenarioB))"
      by simp
    then show "source e \<in> set (map node_id (rawNodes scenarioA))"
      unfolding cap ids by simp
  qed
  from buildGraph_endpoints [of scenarioA scenarioB] h1 h2
  have "\<forall>e \<in> set (snd (buildGraph scenarioA scenarioB)).
          source e \<in> set (map node_id (fst (buildGraph scenarioA scenarioB))) \<and>
          target e \<in> set (map node_id (fst (buildGraph scenarioA scenarioB)))"
    by blast
  then have "list_all (\<lambda>e. source e \<in> set (map node_id (fst (buildGraph scenarioA scenarioB))) \<and>
                 target e \<in> set (map node_id (fst (buildGraph scenarioA scenarioB))))
     (snd (buildGraph scenarioA scenarioB))"
    by (simp add: list_all_iff)
  moreover have "map (\<lambda>e. (source e, target e)) (snd (buildGraph scenarioA scenarioB)) =
     [(''a.ts'', ''b.ts''), (''a.ts'', ''docker_api_a.ts_read_0''),
      (''a.ts'', ''docker_tool_a.ts_compose_0'')]"
    by (simp add: scenarioA_def scenarioB_def readApi_def build_eval)
  ultimately show ?thesis
    by simp
qed

text \<open>
  One edge descriptor and no node descriptor: the edge is in the graph, its endpoints are
  not.
\<close>

theorem buildGraph_dangling_edge:
  "map node_id (fst (buildGraph [edgeDescriptor ''a'' ''b''] [])) = [] \<and>
   map edge_id (snd (buildGraph [edgeDescriptor ''a'' ''b''] [])) = [''a->b''] \<and>
   map source (snd (buildGraph [edgeDescriptor ''a'' ''b''] [])) = [''a''] \<and>
   map target (snd (buildGraph [edgeDescriptor ''a'' ''b''] [])) = [''b'']"
  by (simp add: build_eval)

section \<open>Colliding identifiers\<close>

lemma filter_absent: "i \<notin> set (map f xs) \<Longrightarrow> filter (\<lambda>x. f x = i) xs = []"
  by (induction xs) auto

lemma find_node_buildGraph:
  "find (\<lambda>n. node_id n = i) (fst (buildGraph elements dd)) =
     map_of (setNodes [] (rawNodes elements @ capNodes dd)) i"
  unfolding fst_buildGraph by (rule keyed_find [OF keyed_built])

lemma key_order_map_set:
  "map fst (map_set m k v) = (if k \<in> set (map fst m) then map fst m else map fst m @ [k])"
  by (induction m k v rule: map_set.induct) auto

lemma key_order_setNodes:
  "map fst (setNodes m ns) =
     map fst m @ filter (\<lambda>i. i \<notin> set (map fst m)) (firstOccurrences (map node_id ns))"
proof (induction ns arbitrary: m)
  case Nil
  then show ?case by (simp add: setNodes_Nil)
next
  case (Cons n ns)
  show ?case
  proof (cases "node_id n \<in> set (map fst m)")
    case True
    then show ?thesis
      unfolding setNodes_Cons Cons.IH key_order_map_set by (auto intro!: filter_cong)
  next
    case False
    then show ?thesis
      unfolding setNodes_Cons Cons.IH key_order_map_set by (auto intro!: filter_cong)
  qed
qed

lemma id_order_foldl_pushEdge:
  "map edge_id (foldl pushEdge es xs) =
     map edge_id es @ filter (\<lambda>i. i \<notin> set (map edge_id es)) (firstOccurrences (map edge_id xs))"
proof (induction xs arbitrary: es)
  case Nil
  then show ?case by simp
next
  case (Cons x xs)
  show ?case
  proof (cases "edge_id x \<in> set (map edge_id es)")
    case True
    then show ?thesis
      unfolding foldl_Cons Cons.IH by (auto simp: pushEdge_iff intro!: filter_cong)
  next
    case False
    then show ?thesis
      unfolding foldl_Cons Cons.IH by (auto simp: pushEdge_iff intro!: filter_cong)
  qed
qed

text \<open>
  C2, as the code has it. Node and edge identifiers are unique in the graph, and they stand
  in the order in which they first occur: the raw descriptors in input order, the
  capabilities after them. For edges the first descriptor with an identifier is the one
  kept. For nodes \<^verbatim>\<open>nodeMap.set\<close> overwrites: the node keeps the place of the first
  descriptor and carries the attributes of the last one (here for every identifier that no
  capability node takes over afterwards).
\<close>

theorem buildGraph_collisions:
  "distinct (map node_id (fst (buildGraph elements dd))) \<and>
   distinct (map edge_id (snd (buildGraph elements dd))) \<and>
   set (map node_id (rawNodes elements)) \<subseteq> set (map node_id (fst (buildGraph elements dd))) \<and>
   set (map edge_id (rawEdges elements)) \<subseteq> set (map edge_id (snd (buildGraph elements dd))) \<and>
   (\<forall>n \<in> set (rawNodes elements).
      node_id n \<notin> set (map node_id (capNodes dd)) \<longrightarrow>
      find (\<lambda>x. node_id x = node_id n) (fst (buildGraph elements dd)) =
        Some (last (filter (\<lambda>x. node_id x = node_id n) (rawNodes elements)))) \<and>
   (\<forall>e \<in> set (rawEdges elements).
      find (\<lambda>x. edge_id x = edge_id e) (snd (buildGraph elements dd)) =
        find (\<lambda>x. edge_id x = edge_id e) (rawEdges elements)) \<and>
   map node_id (fst (buildGraph elements dd)) =
     firstOccurrences (map node_id (rawNodes elements @ capNodes dd)) \<and>
   map edge_id (snd (buildGraph elements dd)) =
     firstOccurrences (map edge_id (rawEdges elements @ capEdges dd))"
proof (intro conjI ballI impI)
  show "distinct (map node_id (fst (buildGraph elements dd)))"
    by (rule distinct_node_ids_buildGraph)
  show "distinct (map edge_id (snd (buildGraph elements dd)))"
    by (rule distinct_edge_ids_buildGraph)
  show "set (map node_id (rawNodes elements)) \<subseteq> set (map node_id (fst (buildGraph elements dd)))"
    unfolding set_node_ids_buildGraph by simp
  show "set (map edge_id (rawEdges elements)) \<subseteq> set (map edge_id (snd (buildGraph elements dd)))"
    unfolding snd_buildGraph ids_foldl_pushEdge by auto
  show "map node_id (fst (buildGraph elements dd)) =
          firstOccurrences (map node_id (rawNodes elements @ capNodes dd))"
    unfolding node_ids_buildGraph key_order_setNodes by simp
  show "map edge_id (snd (buildGraph elements dd)) =
          firstOccurrences (map edge_id (rawEdges elements @ capEdges dd))"
    unfolding snd_buildGraph id_order_foldl_pushEdge by simp
next
  fix n
  assume n: "n \<in> set (rawNodes elements)"
    and free: "node_id n \<notin> set (map node_id (capNodes dd))"
  from free have none: "filter (\<lambda>x. node_id x = node_id n) (capNodes dd) = []"
    by (rule filter_absent)
  from n have some: "filter (\<lambda>x. node_id x = node_id n) (rawNodes elements) \<noteq> []"
    by (auto simp: filter_empty_conv)
  show "find (\<lambda>x. node_id x = node_id n) (fst (buildGraph elements dd)) =
          Some (last (filter (\<lambda>x. node_id x = node_id n) (rawNodes elements)))"
    unfolding find_node_buildGraph map_of_setNodes using none some by simp
next
  fix e
  assume e: "e \<in> set (rawEdges elements)"
  then have "find (\<lambda>x. edge_id x = edge_id e) (rawEdges elements) \<noteq> None"
    by (auto simp: find_None_iff)
  then show "find (\<lambda>x. edge_id x = edge_id e) (snd (buildGraph elements dd)) =
               find (\<lambda>x. edge_id x = edge_id e) (rawEdges elements)"
    unfolding snd_buildGraph find_foldl_pushEdge by (auto simp: find_append)
qed

text \<open>
  At node descriptors for \<open>a\<close> labelled \<open>first\<close>, for \<open>b\<close> labelled \<open>middle\<close>, and for
  \<open>a\<close> again labelled \<open>second\<close>, followed by Scenario C's repeated edge descriptor: two
  nodes, \<open>a\<close> before \<open>b\<close>, the node \<open>a\<close> with the second label, and one edge.
\<close>

theorem buildGraph_collisions_witness:
  "find (\<lambda>x. node_id x = ''a'')
     (fst (buildGraph (labelledNode ''a'' ''first'' # labelledNode ''b'' ''middle'' #
                       labelledNode ''a'' ''second'' # scenarioC) [])) =
     Some (fileNode ''a'' (labelledNode ''a'' ''second'')) \<and>
   map node_id
     (fst (buildGraph (labelledNode ''a'' ''first'' # labelledNode ''b'' ''middle'' #
                       labelledNode ''a'' ''second'' # scenarioC) [])) =
     [''a'', ''b''] \<and>
   map label (map data
     (fst (buildGraph (labelledNode ''a'' ''first'' # labelledNode ''b'' ''middle'' #
                       labelledNode ''a'' ''second'' # scenarioC) []))) =
     [''second'', ''middle''] \<and>
   map edge_id
     (snd (buildGraph (labelledNode ''a'' ''first'' # labelledNode ''b'' ''middle'' #
                       labelledNode ''a'' ''second'' # scenarioC) [])) =
     [''a->b'']"
proof -
  let ?els = "labelledNode ''a'' ''first'' # labelledNode ''b'' ''middle'' #
              labelledNode ''a'' ''second'' # scenarioC"
  have raw: "rawNodes ?els =
               [fileNode ''a'' (labelledNode ''a'' ''first''),
                fileNode ''b'' (labelledNode ''b'' ''middle''),
                fileNode ''a'' (labelledNode ''a'' ''second'')]"
    by (simp add: rawNodes_def labelledNode_def nodeDescriptor_def scenarioC_def
        edgeDescriptor_def)
  have rawE: "map edge_id (rawEdges ?els) = [''a->b'', ''a->b'']"
    by (simp add: rawEdges_def labelledNode_def nodeDescriptor_def scenarioC_def
        edgeDescriptor_def dependencyEdge_def)
  have ids: "node_id (fileNode i el) = i" for i el
    by (simp add: fileNode_def Let_def)
  have cap: "capNodes [] = []" "capEdges [] = []"
    by (simp_all add: capNodes_def capEdges_def integrated_def)
  have mem: "fileNode ''a'' (labelledNode ''a'' ''second'') \<in> set (rawNodes ?els)"
    unfolding raw by simp
  have free: "node_id (fileNode ''a'' (labelledNode ''a'' ''second'')) \<notin>
                set (map node_id (capNodes []))"
    by (simp add: cap)
  note inst = buildGraph_collisions [of ?els "[]"]
  from inst mem free
  have "find (\<lambda>x. node_id x = node_id (fileNode ''a'' (labelledNode ''a'' ''second'')))
          (fst (buildGraph ?els [])) =
        Some (last (filter (\<lambda>x. node_id x =
                node_id (fileNode ''a'' (labelledNode ''a'' ''second''))) (rawNodes ?els)))"
    by blast
  then have found: "find (\<lambda>x. node_id x = ''a'') (fst (buildGraph ?els [])) =
               Some (fileNode ''a'' (labelledNode ''a'' ''second''))"
    by (simp add: raw ids)
  from inst have "map node_id (fst (buildGraph ?els [])) =
                   firstOccurrences (map node_id (rawNodes ?els @ capNodes []))"
    by blast
  then have nodeOrder: "map node_id (fst (buildGraph ?els [])) = [''a'', ''b'']"
    by (simp add: raw ids cap)
  from inst have "map edge_id (snd (buildGraph ?els [])) =
                   firstOccurrences (map edge_id (rawEdges ?els @ capEdges []))"
    by blast
  then have edgeOrder: "map edge_id (snd (buildGraph ?els [])) = [''a->b'']"
    by (simp add: rawE cap)
  have labels: "map label (map data (fst (buildGraph ?els []))) =
                  [''second'', ''middle'']"
    by (simp add: scenarioC_def labelledNode_def nodeDescriptor_def edgeDescriptor_def
        buildGraph_def rawPass_def dockerPass_def addElement_def pushEdge_def
        dependencyEdge_def fileNode_def getNodeType_def Let_def)
  from found nodeOrder labels edgeOrder show ?thesis
    by simp
qed

text \<open>Two node descriptors for \<open>a\<close>: the graph has one node, labelled by the later one.\<close>

theorem buildGraph_later_node_wins:
  "map node_id
     (fst (buildGraph [labelledNode ''a'' ''first'', labelledNode ''a'' ''second''] [])) =
     [''a''] \<and>
   map label (map data
     (fst (buildGraph [labelledNode ''a'' ''first'', labelledNode ''a'' ''second''] []))) =
     [''second'']"
  by (simp add: labelledNode_def nodeDescriptor_def buildGraph_def rawPass_def dockerPass_def
      addElement_def fileNode_def Let_def)

section \<open>Entries without Docker integration\<close>

lemma values_map_set: "set (map snd (map_set m k v)) \<subseteq> insert v (set (map snd m))"
  by (induction m k v rule: map_set.induct) auto

lemma values_setNodes: "set (map snd (setNodes m ns)) \<subseteq> set (map snd m) \<union> set ns"
proof (induction ns arbitrary: m)
  case Nil
  then show ?case by (simp add: setNodes_Nil)
next
  case (Cons n ns)
  show ?case
    using Cons.IH [of "map_set m (node_id n) n"] values_map_set [of m "node_id n" n]
    unfolding setNodes_Cons by auto
qed

lemma integrated_idem: "integrated (integrated dd) = integrated dd"
  by (simp add: integrated_def)

lemma buildGraph_integrated: "buildGraph elements (integrated dd) = buildGraph elements dd"
proof -
  have "capNodes (integrated dd) = capNodes dd" and "capEdges (integrated dd) = capEdges dd"
    by (simp_all add: capNodes_def capEdges_def integrated_idem)
  then have "fst (buildGraph elements (integrated dd)) = fst (buildGraph elements dd)"
    and "snd (buildGraph elements (integrated dd)) = snd (buildGraph elements dd)"
    by (simp_all only: fst_buildGraph snd_buildGraph)
  then show ?thesis
    by (rule prod_eqI)
qed

text \<open>
  C10. An entry whose \<^verbatim>\<open>hasDockerIntegration\<close> is false leaves the builder as it was,
  whatever its arrays hold, so the graph is the one built from the flagged entries alone;
  and every node (edge) of the graph is either made from a raw element or is a capability
  node (edge) of an entry whose flag is true.
\<close>

theorem unflagged_entries_contribute_nothing:
  "(\<not> hasDockerIntegration (snd entry) \<longrightarrow> addDockerEntry b entry = b) \<and>
   buildGraph elements dd = buildGraph elements (integrated dd) \<and>
   (\<forall>n \<in> set (fst (buildGraph elements dd)).
      n \<in> set (rawNodes elements) \<or>
      (\<exists>entry \<in> set dd. hasDockerIntegration (snd entry) \<and> n \<in> set (entryNodes entry))) \<and>
   (\<forall>e \<in> set (snd (buildGraph elements dd)).
      e \<in> set (rawEdges elements) \<or>
      (\<exists>entry \<in> set dd. hasDockerIntegration (snd entry) \<and> e \<in> set (entryEdges entry)))"
proof (intro conjI ballI impI)
  assume "\<not> hasDockerIntegration (snd entry)"
  then show "addDockerEntry b entry = b"
    by (simp add: addDockerEntry_def)
next
  show "buildGraph elements dd = buildGraph elements (integrated dd)"
    by (rule buildGraph_integrated [symmetric])
next
  fix n
  assume "n \<in> set (fst (buildGraph elements dd))"
  then have "n \<in> set (rawNodes elements) \<or> n \<in> set (capNodes dd)"
    using values_setNodes [of "[]" "rawNodes elements @ capNodes dd"]
    by (auto simp: fst_buildGraph)
  then show "n \<in> set (rawNodes elements) \<or>
      (\<exists>entry \<in> set dd. hasDockerIntegration (snd entry) \<and> n \<in> set (entryNodes entry))"
    by (auto simp: capNodes_def integrated_def)
next
  fix e
  assume "e \<in> set (snd (buildGraph elements dd))"
  then have "e \<in> set (rawEdges elements) \<or> e \<in> set (capEdges dd)"
    by (rule edge_of_buildGraph)
  then show "e \<in> set (rawEdges elements) \<or>
      (\<exists>entry \<in> set dd. hasDockerIntegration (snd entry) \<and> e \<in> set (entryEdges entry))"
    by (auto simp: capEdges_def integrated_def)
qed

text \<open>
  Scenario B with the flag switched off and the arrays left as they are: the file node is
  the whole graph.
\<close>

theorem unflagged_entries_witness:
  "\<not> hasDockerIntegration (snd (''github:a.ts'', (snd (hd scenarioB))\<lparr>hasDockerIntegration := False\<rparr>)) \<and>
   orEmpty (dockerApis (snd (hd scenarioB))) = [readApi] \<and>
   orEmpty (dockerTools (snd (hd scenarioB))) = [''compose''] \<and>
   addDockerEntry (rawPass [nodeDescriptor ''a.ts''])
     (''github:a.ts'', (snd (hd scenarioB))\<lparr>hasDockerIntegration := False\<rparr>) =
     rawPass [nodeDescriptor ''a.ts''] \<and>
   buildGraph [nodeDescriptor ''a.ts'']
     [(''github:a.ts'', (snd (hd scenarioB))\<lparr>hasDockerIntegration := False\<rparr>)] =
     buildGraph [nodeDescriptor ''a.ts''] []"
proof -
  let ?entry = "(''github:a.ts'', (snd (hd scenarioB))\<lparr>hasDockerIntegration := False\<rparr>)"
  have off: "\<not> hasDockerIntegration (snd ?entry)"
    by simp
  from unflagged_entries_contribute_nothing
    [of ?entry "rawPass [nodeDescriptor ''a.ts'']" "[nodeDescriptor ''a.ts'']" "[?entry]"] off
  have "addDockerEntry (rawPass [nodeDescriptor ''a.ts'']) ?entry = rawPass [nodeDescriptor ''a.ts'']"
    and "buildGraph [nodeDescriptor ''a.ts''] [?entry] =
         buildGraph [nodeDescriptor ''a.ts''] (integrated [?entry])"
    by blast+
  then show ?thesis
    by (simp add: integrated_def scenarioB_def)
qed

section \<open>An API entry without a name\<close>

lemma map_set_apsnd:
  "map (apsnd g) (map_set m k v) = map_set (map (apsnd g) m) k (g v)"
  by (induction m k v rule: map_set.induct) auto

lemma setNodes_cong_under:
  assumes "\<And>n. node_id (g n) = node_id n"
  shows "map (apsnd g) m = map (apsnd g) m' \<Longrightarrow> map g ns = map g ns' \<Longrightarrow>
         map (apsnd g) (setNodes m ns) = map (apsnd g) (setNodes m' ns')"
proof (induction ns arbitrary: ns' m m')
  case Nil
  then show ?case by (simp add: setNodes_Nil)
next
  case (Cons n ns)
  from Cons.prems(2) obtain n' ns'' where ns': "ns' = n' # ns''"
    and g: "g n = g n'" and rest: "map g ns = map g ns''"
    by (cases ns') auto
  from g have ids: "node_id n = node_id n'"
    using assms by metis
  have "map (apsnd g) (map_set m (node_id n) n) = map (apsnd g) (map_set m' (node_id n') n')"
    unfolding map_set_apsnd using Cons.prems(1) g ids by simp
  from Cons.IH [OF this rest] show ?case
    unfolding ns' setNodes_Cons .
qed

lemma node_id_withoutOriginal: "node_id (withoutOriginal n) = node_id n"
  by (simp add: withoutOriginal_def)

lemma nodes_cong_withoutOriginal:
  assumes "map withoutOriginal ns = map withoutOriginal ns'"
  shows "map withoutOriginal (map snd (setNodes [] ns)) =
         map withoutOriginal (map snd (setNodes [] ns'))"
proof -
  have "map (apsnd withoutOriginal) (setNodes [] ns) = map (apsnd withoutOriginal) (setNodes [] ns')"
    by (rule setNodes_cong_under [OF node_id_withoutOriginal _ assms]) simp
  then have "map snd (map (apsnd withoutOriginal) (setNodes [] ns)) =
             map snd (map (apsnd withoutOriginal) (setNodes [] ns'))"
    by simp
  then show ?thesis
    by (simp add: comp_def)
qed

lemma apiNameOf_nameless:
  "name api = None \<Longrightarrow> apiType api = None \<Longrightarrow> apiNameOf i api = ''api_'' @ toString i"
  by (simp add: apiNameOf_def)

lemma apiNameOf_named: "apiNameOf i (api\<lparr>name := Some (''api_'' @ toString i)\<rparr>) = ''api_'' @ toString i"
  by (simp add: apiNameOf_def)

lemma enumerate_middle:
  "List.enumerate 0 (xs @ x # ys) =
     List.enumerate 0 xs @ (length xs, x) # List.enumerate (Suc (length xs)) ys"
  by (simp add: enumerate_append_eq)

lemma entry_nameless:
  assumes "name api = None" and "apiType api = None"
  shows "entryEdges (k, a\<lparr>dockerApis := Some (as1 @ api # as2)\<rparr>) =
         entryEdges (k, a\<lparr>dockerApis :=
                          Some (as1 @ api\<lparr>name := Some (''api_'' @ toString (length as1))\<rparr> # as2)\<rparr>)"
    and "map withoutOriginal (entryNodes (k, a\<lparr>dockerApis := Some (as1 @ api # as2)\<rparr>)) =
         map withoutOriginal (entryNodes (k, a\<lparr>dockerApis :=
                          Some (as1 @ api\<lparr>name := Some (''api_'' @ toString (length as1))\<rparr> # as2)\<rparr>))"
  using apiNameOf_nameless [OF assms, of "length as1"] apiNameOf_named [of "length as1" api]
  by (simp_all add: entryEdges_def entryNodes_def apiEdges_def apiNodes_def enumerate_middle
      dockerApiEdge_def dockerApiNode_def dockerApiId_def withoutOriginal_def Let_def)

lemma api_node_registered:
  "hasDockerIntegration a \<Longrightarrow>
   dockerApiNode (fileNameOf k) (length as1) api \<in>
     set (capNodes (pre @ (k, a\<lparr>dockerApis := Some (as1 @ api # as2)\<rparr>) # post))"
  by (simp add: capNodes_append capNodes_Cons entryNodes_def apiNodes_def enumerate_middle)

lemma api_edge_registered:
  "hasDockerIntegration a \<Longrightarrow>
   dockerApiEdge (fileNameOf k) (length as1) api \<in>
     set (capEdges (pre @ (k, a\<lparr>dockerApis := Some (as1 @ api # as2)\<rparr>) # post))"
  by (simp add: capEdges_append capEdges_Cons entryEdges_def apiEdges_def enumerate_middle)

lemma filter_only:
  assumes "x \<in> set xs" and "P x" and "length (filter P xs) = 1"
  shows "filter P xs = [x]"
proof -
  from assms(3) obtain y where y: "filter P xs = [y]"
    by (auto simp: length_Suc_conv)
  from assms(1,2) have "x \<in> set (filter P xs)"
    by simp
  then show ?thesis
    unfolding y by simp
qed

lemma find_only: "filter P xs = [x] \<Longrightarrow> find P xs = Some x"
  by (induction xs) (auto split: if_splits)

lemma friendly_fallback: "getFriendlyDockerName (''api_'' @ s) = FriendlyText (''api_'' @ s)"
  by (simp add: getFriendlyDockerName_def inheritedKeys_def nameMap_def)

lemma nameless_node_fields:
  assumes "name api = None" and "apiType api = None"
  shows "node_id (dockerApiNode f i api) =
           ''docker_api_'' @ f @ ''_api_'' @ toString i @ ''_'' @ toString i"
    and "label (data (dockerApiNode f i api)) =
           [CHR 0xF0, CHR 0x9F, CHR 0x94, CHR 0x8C] @ '' api_'' @ toString i"
    and "nodeType (data (dockerApiNode f i api)) = Some ''docker_api''"
    and "sourceFile (data (dockerApiNode f i api)) = Some f"
    and "dockerInfo (data (dockerApiNode f i api)) =
           Some (ApiInfo (''api_'' @ toString i) (FriendlyText (''api_'' @ toString i))
                   (description api) f api)"
  using friendly_fallback [of "toString i"]
  by (simp_all add: dockerApiNode_def dockerApiId_def apiNameOf_nameless [OF assms] Let_def)

lemma nameless_edge_fields:
  assumes "name api = None" and "apiType api = None"
  shows "edge_id (dockerApiEdge f i api) =
           f @ ''->docker_api_'' @ f @ ''_api_'' @ toString i @ ''_'' @ toString i"
    and "source (dockerApiEdge f i api) = f"
    and "target (dockerApiEdge f i api) =
           ''docker_api_'' @ f @ ''_api_'' @ toString i @ ''_'' @ toString i"
    and "edge_type (dockerApiEdge f i api) = Some ''docker_api_usage''"
  by (simp_all add: dockerApiEdge_def dockerApiId_def apiNameOf_nameless [OF assms])

lemma only_capability_in_graph:
  assumes "n \<in> set (capNodes dd)"
    and "length (filter (\<lambda>x. node_id x = node_id n) (capNodes dd)) = 1"
  shows "n \<in> set (fst (buildGraph elements dd))"
proof -
  have one: "filter (\<lambda>x. node_id x = node_id n) (capNodes dd) = [n]"
    by (rule filter_only [OF assms(1) _ assms(2)]) simp
  have "find (\<lambda>x. node_id x = node_id n) (fst (buildGraph elements dd)) = Some n"
    unfolding find_node_buildGraph map_of_setNodes by (simp add: one)
  then show ?thesis
    by (auto dest: find_SomeD)
qed

lemma only_edge_in_graph:
  assumes "e \<in> set (capEdges dd)"
    and "length (filter (\<lambda>x. edge_id x = edge_id e) (rawEdges elements @ capEdges dd)) = 1"
  shows "e \<in> set (snd (buildGraph elements dd))"
proof -
  from assms(1) have "e \<in> set (rawEdges elements @ capEdges dd)"
    by simp
  then have "filter (\<lambda>x. edge_id x = edge_id e) (rawEdges elements @ capEdges dd) = [e]"
    by (rule filter_only [OF _ _ assms(2)]) simp
  then have "find (\<lambda>x. edge_id x = edge_id e) (snd (buildGraph elements dd)) = Some e"
    unfolding snd_buildGraph find_foldl_pushEdge by (simp add: find_only)
  then show ?thesis
    by (auto dest: find_SomeD)
qed

text \<open>The layout wrapper reads the nodes' identifiers and styles only.\<close>

lemma foldl_setNode_ids:
  "map node_id ns = map node_id ns' \<Longrightarrow>
   foldl (\<lambda>g n. setNode g (node_id n) c) g0 ns = foldl (\<lambda>g n. setNode g (node_id n) c) g0 ns'"
proof (induction ns arbitrary: ns' g0)
  case Nil
  then show ?case by simp
next
  case (Cons n ns)
  then obtain n' ns'' where "ns' = n' # ns''" "node_id n = node_id n'"
    "map node_id ns = map node_id ns''"
    by (cases ns') auto
  with Cons.IH [of ns''] show ?case
    by simp
qed

lemma layoutWith_graph:
  "map node_id ns = map node_id ns' \<Longrightarrow>
   fst (layoutWith cfg layout g ns es) = fst (layoutWith cfg layout g ns' es)"
  by (simp add: layoutWith_def Let_def foldl_setNode_ids [of ns ns'])

lemma layoutWith_nodes:
  assumes "map withoutOriginal ns = map withoutOriginal ns'"
  shows "map withoutOriginal (fst (snd (layoutWith cfg layout g ns es))) =
         map withoutOriginal (fst (snd (layoutWith cfg layout g ns' es)))"
proof -
  from assms have "map node_id (map withoutOriginal ns) = map node_id (map withoutOriginal ns')"
    by simp
  then have ids: "map node_id ns = map node_id ns'"
    by (simp add: comp_def node_id_withoutOriginal)
  define place :: "(string \<Rightarrow> rat \<times> rat) \<Rightarrow> node \<Rightarrow> node"
    where "place = (\<lambda>pos n. n\<lparr>position := (fst (pos (node_id n)) - of_nat nodeWidth / 2,
                                     snd (pos (node_id n)) - of_nat nodeHeight / 2),
                        style := (style n)\<lparr>width := Some nodeWidth,
                                            height := Some nodeHeight\<rparr>\<rparr>)"
  have comm: "withoutOriginal (place pos n) = place pos (withoutOriginal n)" for pos n
    by (simp add: place_def withoutOriginal_def)
  have shape: "fst (snd (layoutWith cfg layout g xs es)) =
                 map (place (layout (fst (layoutWith cfg layout g xs es)))) xs" for xs
    by (simp add: layoutWith_def Let_def place_def)
  have "map withoutOriginal (map (place pos) ns) = map (place pos) (map withoutOriginal ns)" for pos
    by (simp add: comp_def comm)
  moreover
  have "map withoutOriginal (map (place pos) ns') = map (place pos) (map withoutOriginal ns')" for pos
    by (simp add: comp_def comm)
  ultimately show ?thesis
    unfolding shape layoutWith_graph [OF ids, of cfg layout g es] using assms by simp
qed

lemma layoutWith_ids: "map node_id (fst (snd (layoutWith cfg layout g ns es))) = map node_id ns"
  by (simp add: layoutWith_def Let_def comp_def)

lemma layoutWith_edges: "snd (snd (layoutWith cfg layout g ns es)) = es"
  by (simp add: layoutWith_def Let_def)

text \<open>
  C7. An API entry at index \<open>i\<close> with neither \<^verbatim>\<open>name\<close> nor \<^verbatim>\<open>apiType\<close> gets the name
  \<open>api_i\<close>, and its node the identifier built from that name. In an annotation map that
  has the entry at that index under the key \<open>k\<close>:

  \<^item> the graph is the one the same map gives with the entry named \<open>api_i\<close> outright: the
    same edges, and the same nodes up to the copy of the entry kept in
    \<^verbatim>\<open>dockerInfo.originalApi\<close>;
  \<^item> when the record is flagged the graph has a node with the fallback identifier and an
    edge to it from the file;
  \<^item> when no other capability has that identifier, the node is the Docker API node labelled
    \<open>api_i\<close> and owned by the file; when no other edge descriptor or capability has the
    edge's identifier, the edge runs from the file to that node;
  \<^item> \<^verbatim>\<open>loadData\<close> takes its \<^verbatim>\<open>catch\<close> exactly when it does with the entry named outright
    (the layout is given the same graph), stores the same nodes and edges, and when it does
    not take it the stored nodes hold the fallback identifier.
\<close>

theorem nameless_api_fallback:
  assumes "name api = None" and "apiType api = None"
  shows "apiNameOf (length as1) api = ''api_'' @ toString (length as1) \<and>
         node_id (dockerApiNode fileName (length as1) api) =
           ''docker_api_'' @ fileName @ ''_api_'' @ toString (length as1) @ ''_'' @
           toString (length as1) \<and>
         snd (buildGraph elements (pre @ (k, a\<lparr>dockerApis := Some (as1 @ api # as2)\<rparr>) # post)) =
         snd (buildGraph elements
                (pre @ (k, a\<lparr>dockerApis := Some
                     (as1 @ api\<lparr>name := Some (''api_'' @ toString (length as1))\<rparr> # as2)\<rparr>) # post)) \<and>
         map withoutOriginal
           (fst (buildGraph elements (pre @ (k, a\<lparr>dockerApis := Some (as1 @ api # as2)\<rparr>) # post))) =
         map withoutOriginal
           (fst (buildGraph elements
                (pre @ (k, a\<lparr>dockerApis := Some
                     (as1 @ api\<lparr>name := Some (''api_'' @ toString (length as1))\<rparr> # as2)\<rparr>) # post))) \<and>
         (hasDockerIntegration a \<longrightarrow>
            ''docker_api_'' @ fileNameOf k @ ''_api_'' @ toString (length as1) @ ''_'' @
              toString (length as1) \<in>
              set (map node_id (fst (buildGraph elements
                (pre @ (k, a\<lparr>dockerApis := Some (as1 @ api # as2)\<rparr>) # post)))) \<and>
            fileNameOf k @ ''->docker_api_'' @ fileNameOf k @ ''_api_'' @ toString (length as1) @
              ''_'' @ toString (length as1) \<in>
              set (map edge_id (snd (buildGraph elements
                (pre @ (k, a\<lparr>dockerApis := Some (as1 @ api # as2)\<rparr>) # post))))) \<and>
         (hasDockerIntegration a \<and>
          length (filter (\<lambda>n. node_id n = ''docker_api_'' @ fileNameOf k @ ''_api_'' @
                      toString (length as1) @ ''_'' @ toString (length as1))
                   (capNodes (pre @ (k, a\<lparr>dockerApis := Some (as1 @ api # as2)\<rparr>) # post))) = 1 \<longrightarrow>
            (\<exists>n \<in> set (fst (buildGraph elements
                       (pre @ (k, a\<lparr>dockerApis := Some (as1 @ api # as2)\<rparr>) # post))).
               node_id n = ''docker_api_'' @ fileNameOf k @ ''_api_'' @ toString (length as1) @
                 ''_'' @ toString (length as1) \<and>
               label (data n) =
                 [CHR 0xF0, CHR 0x9F, CHR 0x94, CHR 0x8C] @ '' api_'' @ toString (length as1) \<and>
               nodeType (data n) = Some ''docker_api'' \<and>
               sourceFile (data n) = Some (fileNameOf k) \<and>
               dockerInfo (data n) =
                 Some (ApiInfo (''api_'' @ toString (length as1))
                         (FriendlyText (''api_'' @ toString (length as1)))
                         (description api) (fileNameOf k) api))) \<and>
         (hasDockerIntegration a \<and>
          length (filter (\<lambda>e. edge_id e = fileNameOf k @ ''->docker_api_'' @ fileNameOf k @
                      ''_api_'' @ toString (length as1) @ ''_'' @ toString (length as1))
                   (rawEdges elements @
                    capEdges (pre @ (k, a\<lparr>dockerApis := Some (as1 @ api # as2)\<rparr>) # post))) = 1 \<longrightarrow>
            (\<exists>e \<in> set (snd (buildGraph elements
                       (pre @ (k, a\<lparr>dockerApis := Some (as1 @ api # as2)\<rparr>) # post))).
               edge_id e = fileNameOf k @ ''->docker_api_'' @ fileNameOf k @ ''_api_'' @
                 toString (length as1) @ ''_'' @ toString (length as1) \<and>
               source e = fileNameOf k \<and>
               target e = ''docker_api_'' @ fileNameOf k @ ''_api_'' @ toString (length as1) @
                 ''_'' @ toString (length as1) \<and>
               edge_type e = Some ''docker_api_usage'')) \<and>
         fst (loadData layout layoutThrows newFuse g elements
                (pre @ (k, a\<lparr>dockerApis := Some (as1 @ api # as2)\<rparr>) # post) s) =
         fst (loadData layout layoutThrows newFuse g elements
                (pre @ (k, a\<lparr>dockerApis := Some
                     (as1 @ api\<lparr>name := Some (''api_'' @ toString (length as1))\<rparr> # as2)\<rparr>) # post) s) \<and>
         map withoutOriginal (nodes (snd (loadData layout layoutThrows newFuse g elements
                (pre @ (k, a\<lparr>dockerApis := Some (as1 @ api # as2)\<rparr>) # post) s))) =
         map withoutOriginal (nodes (snd (loadData layout layoutThrows newFuse g elements
                (pre @ (k, a\<lparr>dockerApis := Some
                     (as1 @ api\<lparr>name := Some (''api_'' @ toString (length as1))\<rparr> # as2)\<rparr>) # post) s))) \<and>
         edges (snd (loadData layout layoutThrows newFuse g elements
                (pre @ (k, a\<lparr>dockerApis := Some (as1 @ api # as2)\<rparr>) # post) s)) =
         edges (snd (loadData layout layoutThrows newFuse g elements
                (pre @ (k, a\<lparr>dockerApis := Some
                     (as1 @ api\<lparr>name := Some (''api_'' @ toString (length as1))\<rparr> # as2)\<rparr>) # post) s)) \<and>
         (hasDockerIntegration a \<and>
          \<not> layoutThrows (fst (loadData layout layoutThrows newFuse g elements
                (pre @ (k, a\<lparr>dockerApis := Some (as1 @ api # as2)\<rparr>) # post) s)) \<longrightarrow>
            ''docker_api_'' @ fileNameOf k @ ''_api_'' @ toString (length as1) @ ''_'' @
              toString (length as1) \<in>
              set (map node_id (nodes (snd (loadData layout layoutThrows newFuse g elements
                (pre @ (k, a\<lparr>dockerApis := Some (as1 @ api # as2)\<rparr>) # post) s)))))"
proof -
  let ?e = "(k, a\<lparr>dockerApis := Some (as1 @ api # as2)\<rparr>)"
  let ?e' = "(k, a\<lparr>dockerApis := Some
               (as1 @ api\<lparr>name := Some (''api_'' @ toString (length as1))\<rparr> # as2)\<rparr>)"
  let ?dd = "pre @ ?e # post"
  let ?dd' = "pre @ ?e' # post"
  let ?f = "fileNameOf k"
  let ?i = "length as1"
  let ?n = "dockerApiNode ?f ?i api"
  let ?c = "dockerApiEdge ?f ?i api"
  note nf = nameless_node_fields [OF assms, of ?f ?i]
  note ef = nameless_edge_fields [OF assms, of ?f ?i]
  have edges_eq: "capEdges ?dd = capEdges ?dd'"
    using entry_nameless(1) [OF assms, where k = k and a = a and ?as1.0 = as1 and ?as2.0 = as2]
    by (simp add: capEdges_def integrated_def)
  have nodes_eq: "map withoutOriginal (capNodes ?dd) = map withoutOriginal (capNodes ?dd')"
    using entry_nameless(2) [OF assms, where k = k and a = a and ?as1.0 = as1 and ?as2.0 = as2]
    by (simp add: capNodes_def integrated_def map_concat)
  have "map withoutOriginal (rawNodes elements @ capNodes ?dd) =
        map withoutOriginal (rawNodes elements @ capNodes ?dd')"
    using nodes_eq by simp
  then have n: "map withoutOriginal (fst (buildGraph elements ?dd)) =
                map withoutOriginal (fst (buildGraph elements ?dd'))"
    unfolding fst_buildGraph by (rule nodes_cong_withoutOriginal)
  have e: "snd (buildGraph elements ?dd) = snd (buildGraph elements ?dd')"
    unfolding snd_buildGraph edges_eq ..
  have i: "node_id (dockerApiNode fileName ?i api) =
           ''docker_api_'' @ fileName @ ''_api_'' @ toString ?i @ ''_'' @ toString ?i"
    by (rule nameless_node_fields(1) [OF assms])
  have ids:
    "''docker_api_'' @ ?f @ ''_api_'' @ toString ?i @ ''_'' @ toString ?i \<in>
       set (map node_id (fst (buildGraph elements ?dd))) \<and>
     ?f @ ''->docker_api_'' @ ?f @ ''_api_'' @ toString ?i @ ''_'' @ toString ?i \<in>
       set (map edge_id (snd (buildGraph elements ?dd)))"
    if flag: "hasDockerIntegration a"
  proof
    have "node_id ?n \<in> node_id ` set (capNodes ?dd)"
      by (rule imageI) (rule api_node_registered [OF flag])
    then have "node_id ?n \<in> set (map node_id (capNodes ?dd))"
      by (simp only: set_map)
    then show "''docker_api_'' @ ?f @ ''_api_'' @ toString ?i @ ''_'' @ toString ?i \<in>
                 set (map node_id (fst (buildGraph elements ?dd)))"
      unfolding set_node_ids_buildGraph nf(1) by simp
    have "edge_id ?c \<in> edge_id ` set (capEdges ?dd)"
      by (rule imageI) (rule api_edge_registered [OF flag])
    then have "edge_id ?c \<in> set (map edge_id (capEdges ?dd))"
      by (simp only: set_map)
    then show "?f @ ''->docker_api_'' @ ?f @ ''_api_'' @ toString ?i @ ''_'' @ toString ?i \<in>
                 set (map edge_id (snd (buildGraph elements ?dd)))"
      unfolding snd_buildGraph ids_foldl_pushEdge ef(1) by simp
  qed
  have node:
    "\<exists>n \<in> set (fst (buildGraph elements ?dd)).
        node_id n = ''docker_api_'' @ ?f @ ''_api_'' @ toString ?i @ ''_'' @ toString ?i \<and>
        label (data n) = [CHR 0xF0, CHR 0x9F, CHR 0x94, CHR 0x8C] @ '' api_'' @ toString ?i \<and>
        nodeType (data n) = Some ''docker_api'' \<and>
        sourceFile (data n) = Some ?f \<and>
        dockerInfo (data n) =
          Some (ApiInfo (''api_'' @ toString ?i) (FriendlyText (''api_'' @ toString ?i))
                  (description api) ?f api)"
    if flag: "hasDockerIntegration a"
      and one: "length (filter (\<lambda>n. node_id n = ''docker_api_'' @ ?f @ ''_api_'' @
                  toString ?i @ ''_'' @ toString ?i) (capNodes ?dd)) = 1"
  proof -
    from one have "length (filter (\<lambda>x. node_id x = node_id ?n) (capNodes ?dd)) = 1"
      unfolding nf(1) .
    from only_capability_in_graph [OF api_node_registered [OF flag] this]
    have "?n \<in> set (fst (buildGraph elements ?dd))" .
    with nf show ?thesis
      by blast
  qed
  have edge:
    "\<exists>e \<in> set (snd (buildGraph elements ?dd)).
        edge_id e = ?f @ ''->docker_api_'' @ ?f @ ''_api_'' @ toString ?i @ ''_'' @ toString ?i \<and>
        source e = ?f \<and>
        target e = ''docker_api_'' @ ?f @ ''_api_'' @ toString ?i @ ''_'' @ toString ?i \<and>
        edge_type e = Some ''docker_api_usage''"
    if flag: "hasDockerIntegration a"
      and one: "length (filter (\<lambda>e. edge_id e = ?f @ ''->docker_api_'' @ ?f @ ''_api_'' @
                  toString ?i @ ''_'' @ toString ?i) (rawEdges elements @ capEdges ?dd)) = 1"
  proof -
    from one have "length (filter (\<lambda>x. edge_id x = edge_id ?c)
                     (rawEdges elements @ capEdges ?dd)) = 1"
      unfolding ef(1) .
    from only_edge_in_graph [OF api_edge_registered [OF flag] this]
    have "?c \<in> set (snd (buildGraph elements ?dd))" .
    with ef show ?thesis
      by blast
  qed
  let ?load = "\<lambda>dd. loadData layout layoutThrows newFuse g elements dd s"
  let ?laid = "\<lambda>dd. getLayoutedElements layout g (fst (buildGraph elements dd))
                      (snd (buildGraph elements dd))"
  from n have "map node_id (map withoutOriginal (fst (buildGraph elements ?dd))) =
               map node_id (map withoutOriginal (fst (buildGraph elements ?dd')))"
    by simp
  then have same_ids: "map node_id (fst (buildGraph elements ?dd)) =
                       map node_id (fst (buildGraph elements ?dd'))"
    by (simp add: comp_def node_id_withoutOriginal)
  have laid_graph: "fst (?laid ?dd) = fst (?laid ?dd')"
    unfolding getLayoutedElements_def e by (rule layoutWith_graph [OF same_ids])
  have laid_nodes: "map withoutOriginal (fst (snd (?laid ?dd))) =
                    map withoutOriginal (fst (snd (?laid ?dd')))"
    unfolding getLayoutedElements_def e by (rule layoutWith_nodes [OF n])
  have laid_edges: "snd (snd (?laid ?dd)) = snd (snd (?laid ?dd'))"
    unfolding getLayoutedElements_def layoutWith_edges by (rule e)
  have load_graph: "fst (?load dd) = fst (?laid dd)" for dd
    by (simp add: loadData_def Let_def)
  have load_nodes: "nodes (snd (?load dd)) =
                      (if layoutThrows (fst (?laid dd)) then [] else fst (snd (?laid dd)))" for dd
    by (simp add: loadData_def Let_def)
  have load_edges: "edges (snd (?load dd)) =
                      (if layoutThrows (fst (?laid dd)) then [] else snd (snd (?laid dd)))" for dd
    by (simp add: loadData_def Let_def)
  have l1: "fst (?load ?dd) = fst (?load ?dd')"
    unfolding load_graph by (rule laid_graph)
  have l2: "map withoutOriginal (nodes (snd (?load ?dd))) =
            map withoutOriginal (nodes (snd (?load ?dd')))"
    unfolding load_nodes laid_graph using laid_nodes by simp
  have l3: "edges (snd (?load ?dd)) = edges (snd (?load ?dd'))"
    unfolding load_edges laid_graph using laid_edges by simp
  have l4: "''docker_api_'' @ ?f @ ''_api_'' @ toString ?i @ ''_'' @ toString ?i \<in>
              set (map node_id (nodes (snd (?load ?dd))))"
    if flag: "hasDockerIntegration a" and ok: "\<not> layoutThrows (fst (?load ?dd))"
  proof -
    from ok have "nodes (snd (?load ?dd)) = fst (snd (?laid ?dd))"
      unfolding load_graph load_nodes by simp
    then have "map node_id (nodes (snd (?load ?dd))) = map node_id (fst (buildGraph elements ?dd))"
      by (simp only: getLayoutedElements_def layoutWith_ids)
    with ids [OF flag] show ?thesis
      by simp
  qed
  from apiNameOf_nameless [OF assms, of ?i] i e n ids node edge l1 l2 l3 l4 show ?thesis
    by (intro conjI impI) blast+
qed

lemma toString_Suc_0: "toString (Suc 0) = ''1''"
  by (simp add: toString.simps [of "Suc 0"] digit_def)

lemma toString_1: "toString 1 = ''1''"
  using toString_Suc_0 by simp

lemma toString_11: "toString 11 = ''11''"
  by (simp add: toString.simps [of 11] toString_Suc_0 digit_def)

text \<open>
  Scenario B with the nameless entry as its second API entry, loaded into a fresh page
  with a layout that returns; and the nameless entry behind eleven others.
\<close>

theorem nameless_api_fallback_witness:
  "name namelessApi = None \<and> apiType namelessApi = None \<and>
   map node_id (fst (buildGraph [nodeDescriptor ''a.ts''] twoApis)) =
     [''a.ts'', ''docker_api_a.ts_read_0'', ''docker_api_a.ts_api_1_1'',
      ''docker_tool_a.ts_compose_0''] \<and>
   map edge_id (snd (buildGraph [nodeDescriptor ''a.ts''] twoApis)) =
     [''a.ts->docker_api_a.ts_read_0'', ''a.ts->docker_api_a.ts_api_1_1'',
      ''a.ts->docker_tool_a.ts_compose_0''] \<and>
   map label (map data (fst (buildGraph [] twoApis))) =
     [[CHR 0xF0, CHR 0x9F, CHR 0x94, CHR 0x8C] @ '' read'',
      [CHR 0xF0, CHR 0x9F, CHR 0x94, CHR 0x8C] @ '' api_1'',
      [CHR 0xF0, CHR 0x9F, CHR 0x9B, CHR 0xA0, CHR 0xEF, CHR 0xB8, CHR 0x8F] @ '' compose''] \<and>
   map source (snd (buildGraph [] twoApis)) = [''a.ts'', ''a.ts'', ''a.ts''] \<and>
   ''docker_api_a.ts_api_1_1'' \<in> set (map node_id (fst (buildGraph [nodeDescriptor ''a.ts''] twoApis))) \<and>
   ''a.ts->docker_api_a.ts_api_1_1'' \<in>
     set (map edge_id (snd (buildGraph [nodeDescriptor ''a.ts''] twoApis))) \<and>
   (\<exists>n \<in> set (fst (buildGraph [nodeDescriptor ''a.ts''] twoApis)).
      node_id n = ''docker_api_a.ts_api_1_1'' \<and>
      label (data n) = [CHR 0xF0, CHR 0x9F, CHR 0x94, CHR 0x8C] @ '' api_1'' \<and>
      nodeType (data n) = Some ''docker_api'' \<and>
      sourceFile (data n) = Some ''a.ts'' \<and>
      dockerInfo (data n) =
        Some (ApiInfo ''api_1'' (FriendlyText ''api_1'') (Some ''x'') ''a.ts'' namelessApi)) \<and>
   (\<exists>e \<in> set (snd (buildGraph [nodeDescriptor ''a.ts''] twoApis)).
      edge_id e = ''a.ts->docker_api_a.ts_api_1_1'' \<and> source e = ''a.ts'' \<and>
      target e = ''docker_api_a.ts_api_1_1'' \<and> edge_type e = Some ''docker_api_usage'') \<and>
   ''docker_api_a.ts_api_1_1'' \<in>
     set (map node_id (nodes (snd (loadData originLayout neverThrows emptyFuse dagreGraph
                                      [nodeDescriptor ''a.ts''] twoApis initialState)))) \<and>
   ''docker_api_a.ts_api_11_11'' \<in> set (map node_id (fst (buildGraph [] twelveApis))) \<and>
   ''a.ts->docker_api_a.ts_api_11_11'' \<in> set (map edge_id (snd (buildGraph [] twelveApis)))"
proof -
  let ?a = "\<lparr>hasDockerIntegration = True, dockerTools = Some [''compose''],
             dockerApis = None, summary = ''s''\<rparr>"
  let ?b = "\<lparr>hasDockerIntegration = True, dockerTools = None,
             dockerApis = None, summary = ''s''\<rparr>"
  let ?els = "[nodeDescriptor ''a.ts'']"
  have h: "name namelessApi = None" "apiType namelessApi = None"
    by (simp_all add: namelessApi_def)
  have f: "fileNameOf ''github:a.ts'' = ''a.ts''"
    by (simp add: fileNameOf_def)
  have two: "[] @ (''github:a.ts'', ?a\<lparr>dockerApis := Some ([readApi] @ namelessApi # [])\<rparr>) # [] =
             twoApis"
    by (simp add: twoApis_def)
  have twelve: "[] @ (''github:a.ts'',
                  ?b\<lparr>dockerApis := Some (replicate 11 readApi @ namelessApi # [])\<rparr>) # [] =
                twelveApis"
    by (simp add: twelveApis_def)
  have flag: "hasDockerIntegration ?a" "hasDockerIntegration ?b"
    by simp_all
  have ok: "\<not> neverThrows gr" for gr
    by (simp add: neverThrows_def)
  note inst2 = nameless_api_fallback [OF h, where k = "''github:a.ts''" and a = ?a
      and ?as1.0 = "[readApi]" and ?as2.0 = "[]" and pre = "[]" and post = "[]"
      and elements = ?els and layout = originLayout and layoutThrows = neverThrows
      and newFuse = emptyFuse and g = dagreGraph and s = initialState, unfolded two f]
  note inst12 = nameless_api_fallback [OF h, where k = "''github:a.ts''" and a = ?b
      and ?as1.0 = "replicate 11 readApi" and ?as2.0 = "[]" and pre = "[]" and post = "[]"
      and elements = "[]", unfolded twelve f]
  from inst2 flag(1)
  have m2: "''docker_api_'' @ ''a.ts'' @ ''_api_'' @ toString (length [readApi]) @ ''_'' @
              toString (length [readApi]) \<in> set (map node_id (fst (buildGraph ?els twoApis)))"
    and e2: "''a.ts'' @ ''->docker_api_'' @ ''a.ts'' @ ''_api_'' @ toString (length [readApi]) @
              ''_'' @ toString (length [readApi]) \<in> set (map edge_id (snd (buildGraph ?els twoApis)))"
    by blast+
  from inst2 flag(1) ok
  have l2: "''docker_api_'' @ ''a.ts'' @ ''_api_'' @ toString (length [readApi]) @ ''_'' @
              toString (length [readApi]) \<in>
            set (map node_id (nodes (snd (loadData originLayout neverThrows emptyFuse dagreGraph
                                             ?els twoApis initialState))))"
    by blast
  from inst12 flag(2)
  have m12: "''docker_api_'' @ ''a.ts'' @ ''_api_'' @ toString (length (replicate 11 readApi)) @
               ''_'' @ toString (length (replicate 11 readApi)) \<in>
             set (map node_id (fst (buildGraph [] twelveApis)))"
    and e12: "''a.ts'' @ ''->docker_api_'' @ ''a.ts'' @ ''_api_'' @
               toString (length (replicate 11 readApi)) @ ''_'' @
               toString (length (replicate 11 readApi)) \<in>
             set (map edge_id (snd (buildGraph [] twelveApis)))"
    by blast+
  have one_node: "length (filter (\<lambda>n. node_id n = ''docker_api_'' @ ''a.ts'' @ ''_api_'' @
                      toString (length [readApi]) @ ''_'' @ toString (length [readApi]))
                   (capNodes twoApis)) = 1"
    by (simp add: twoApis_def readApi_def namelessApi_def lists_eval toString_Suc_0)
  have one_edge: "length (filter (\<lambda>e. edge_id e = ''a.ts'' @ ''->docker_api_'' @ ''a.ts'' @
                      ''_api_'' @ toString (length [readApi]) @ ''_'' @ toString (length [readApi]))
                   (rawEdges ?els @ capEdges twoApis)) = 1"
    by (simp add: twoApis_def readApi_def namelessApi_def lists_eval toString_Suc_0)
  from inst2 flag(1) one_node
  have "\<exists>n \<in> set (fst (buildGraph ?els twoApis)).
          node_id n = ''docker_api_'' @ ''a.ts'' @ ''_api_'' @ toString (length [readApi]) @
            ''_'' @ toString (length [readApi]) \<and>
          label (data n) =
            [CHR 0xF0, CHR 0x9F, CHR 0x94, CHR 0x8C] @ '' api_'' @ toString (length [readApi]) \<and>
          nodeType (data n) = Some ''docker_api'' \<and>
          sourceFile (data n) = Some ''a.ts'' \<and>
          dockerInfo (data n) =
            Some (ApiInfo (''api_'' @ toString (length [readApi]))
                    (FriendlyText (''api_'' @ toString (length [readApi])))
                    (description namelessApi) ''a.ts'' namelessApi)"
    by blast
  moreover have "description namelessApi = Some ''x''"
    by (simp add: namelessApi_def)
  ultimately have the_node:
    "\<exists>n \<in> set (fst (buildGraph ?els twoApis)).
       node_id n = ''docker_api_a.ts_api_1_1'' \<and>
       label (data n) = [CHR 0xF0, CHR 0x9F, CHR 0x94, CHR 0x8C] @ '' api_1'' \<and>
       nodeType (data n) = Some ''docker_api'' \<and>
       sourceFile (data n) = Some ''a.ts'' \<and>
       dockerInfo (data n) =
         Some (ApiInfo ''api_1'' (FriendlyText ''api_1'') (Some ''x'') ''a.ts'' namelessApi)"
    by (simp add: toString_Suc_0)
  from inst2 flag(1) one_edge
  have "\<exists>e \<in> set (snd (buildGraph ?els twoApis)).
          edge_id e = ''a.ts'' @ ''->docker_api_'' @ ''a.ts'' @ ''_api_'' @
            toString (length [readApi]) @ ''_'' @ toString (length [readApi]) \<and>
          source e = ''a.ts'' \<and>
          target e = ''docker_api_'' @ ''a.ts'' @ ''_api_'' @ toString (length [readApi]) @
            ''_'' @ toString (length [readApi]) \<and>
          edge_type e = Some ''docker_api_usage''"
    by blast
  then have the_edge:
    "\<exists>e \<in> set (snd (buildGraph ?els twoApis)).
       edge_id e = ''a.ts->docker_api_a.ts_api_1_1'' \<and> source e = ''a.ts'' \<and>
       target e = ''docker_api_a.ts_api_1_1'' \<and> edge_type e = Some ''docker_api_usage''"
    by (simp add: toString_Suc_0)
  have ids: "map node_id (fst (buildGraph ?els twoApis)) =
     [''a.ts'', ''docker_api_a.ts_read_0'', ''docker_api_a.ts_api_1_1'',
      ''docker_tool_a.ts_compose_0'']"
    by (simp add: twoApis_def readApi_def namelessApi_def build_eval toString_Suc_0
        dockerApiNode_def dockerToolNode_def fileNode_def)
  have eids: "map edge_id (snd (buildGraph ?els twoApis)) =
     [''a.ts->docker_api_a.ts_read_0'', ''a.ts->docker_api_a.ts_api_1_1'',
      ''a.ts->docker_tool_a.ts_compose_0'']"
    by (simp add: twoApis_def readApi_def namelessApi_def build_eval toString_Suc_0)
  have labels: "map label (map data (fst (buildGraph [] twoApis))) =
     [[CHR 0xF0, CHR 0x9F, CHR 0x94, CHR 0x8C] @ '' read'',
      [CHR 0xF0, CHR 0x9F, CHR 0x94, CHR 0x8C] @ '' api_1'',
      [CHR 0xF0, CHR 0x9F, CHR 0x9B, CHR 0xA0, CHR 0xEF, CHR 0xB8, CHR 0x8F] @ '' compose'']"
    by (simp add: twoApis_def readApi_def namelessApi_def build_eval toString_Suc_0
        dockerApiNode_def dockerToolNode_def getFriendlyDockerName_def inheritedKeys_def
        nameMap_def)
  have sources: "map source (snd (buildGraph [] twoApis)) = [''a.ts'', ''a.ts'', ''a.ts'']"
    by (simp add: twoApis_def readApi_def namelessApi_def build_eval toString_Suc_0)
  from m2 e2 l2 m12 e12
  have "''docker_api_a.ts_api_1_1'' \<in> set (map node_id (fst (buildGraph ?els twoApis)))"
    and "''a.ts->docker_api_a.ts_api_1_1'' \<in> set (map edge_id (snd (buildGraph ?els twoApis)))"
    and "''docker_api_a.ts_api_1_1'' \<in>
           set (map node_id (nodes (snd (loadData originLayout neverThrows emptyFuse dagreGraph
                                            ?els twoApis initialState))))"
    and "''docker_api_a.ts_api_11_11'' \<in> set (map node_id (fst (buildGraph [] twelveApis)))"
    and "''a.ts->docker_api_a.ts_api_11_11'' \<in> set (map edge_id (snd (buildGraph [] twelveApis)))"
    by (simp_all only: toString_1 toString_11 length_replicate list.size append.simps
          One_nat_def [symmetric] add_0 plus_nat.simps)
  with h ids eids labels sources the_node the_edge show ?thesis
    by (intro conjI) assumption+
qed

section \<open>Category inference\<close>

text \<open>
  C6, as the code has it. When the explicit type is absent, empty, or neither a category
  of \<^verbatim>\<open>FILE_TYPES\<close> nor the name of a member that the table object inherits, the
  category is the one the ordered table of substrings gives: first match wins, no match
  gives the default. The substrings are looked for anywhere in the identifier; on an
  identifier where \<open>use\<close> occurs exactly when a path segment starts with it, and
  \<open>.d.ts\<close> exactly when the identifier has the \<open>.d\<close> suffix, that is the category the
  specification's wording gives. In Scenario A both nodes get the default category.
\<close>

theorem getNodeType_priority:
  "(\<not> truthy ty \<or> (\<not> knownCategory (the ty) \<and> the ty \<notin> set inheritedKeys) \<longrightarrow>
      getNodeType ident ty = inferCategory ident) \<and>
   (includes_str ident ''use'' = usePrefix ident \<and>
    includes_str ident ''.d.ts'' = dSuffix ident \<longrightarrow>
      inferCategory ident = claimedCategory ident) \<and>
   map fileType (map data (fst (buildGraph scenarioA []))) = [''default'', ''default'']"
proof (intro conjI impI)
  assume "\<not> truthy ty \<or> (\<not> knownCategory (the ty) \<and> the ty \<notin> set inheritedKeys)"
  then have h: "(truthy ty \<and> inFILE_TYPES (the ty)) = False"
    by (auto simp: inFILE_TYPES_def knownCategory_def)
  show "getNodeType ident ty = inferCategory ident"
    unfolding getNodeType_def h by (simp add: inferCategory_def categoryRules_def)
next
  assume "includes_str ident ''use'' = usePrefix ident \<and>
          includes_str ident ''.d.ts'' = dSuffix ident"
  then have u: "includes_str ident ''use'' = usePrefix ident"
    and d: "includes_str ident ''.d.ts'' = dSuffix ident"
    by simp_all
  show "inferCategory ident = claimedCategory ident"
    unfolding inferCategory_def categoryRules_def claimedCategory_def claimedRules_def
    by (simp add: u d)
next
  show "map fileType (map data (fst (buildGraph scenarioA []))) = [''default'', ''default'']"
    by (simp add: scenarioA_def build_eval fileNode_def getNodeType_def)
qed

text \<open>
  A path under both \<open>app/\<close> and \<open>api/\<close> is a page, and an unknown explicit type does not
  stop the inference; a hook file in the hook directory and a declaration file are what the
  specification's wording says as well.
\<close>

theorem getNodeType_priority_witness:
  "truthy (Some ''service'') \<and> knownCategory ''service'' = False \<and>
   ''service'' \<notin> set inheritedKeys \<and>
   getNodeType ''src/app/api/route.ts'' (Some ''service'') = ''pages'' \<and>
   getNodeType ''src/lib/use.ts'' (Some []) = ''lib'' \<and>
   getNodeType ''a.ts'' None = ''default'' \<and>
   includes_str ''src/useAuth.ts'' ''use'' = usePrefix ''src/useAuth.ts'' \<and>
   includes_str ''src/useAuth.ts'' ''.d.ts'' = dSuffix ''src/useAuth.ts'' \<and>
   getNodeType ''src/useAuth.ts'' None = ''hooks'' \<and>
   claimedCategory ''src/useAuth.ts'' = ''hooks'' \<and>
   includes_str ''src/env.d.ts'' ''use'' = usePrefix ''src/env.d.ts'' \<and>
   includes_str ''src/env.d.ts'' ''.d.ts'' = dSuffix ''src/env.d.ts'' \<and>
   getNodeType ''src/env.d.ts'' None = ''types'' \<and>
   claimedCategory ''src/env.d.ts'' = ''types''"
proof -
  have s: "truthy (Some ''service'')" "knownCategory ''service'' = False"
    "''service'' \<notin> set inheritedKeys"
    by (simp_all add: knownCategory_def FILE_TYPES_def inheritedKeys_def)
  then have hs: "\<not> truthy (Some ''service'') \<or>
                 (\<not> knownCategory (the (Some ''service'')) \<and>
                  the (Some ''service'') \<notin> set inheritedKeys)"
    by simp
  have he: "\<not> truthy (Some []) \<or> (\<not> knownCategory (the (Some [])) \<and> the (Some []) \<notin> set inheritedKeys)"
    and hn: "\<not> truthy None \<or> (\<not> knownCategory (the None) \<and> the None \<notin> set inheritedKeys)"
    by simp_all
  have u1: "includes_str ''src/useAuth.ts'' ''use'' = usePrefix ''src/useAuth.ts''"
    and d1: "includes_str ''src/useAuth.ts'' ''.d.ts'' = dSuffix ''src/useAuth.ts''"
    and u2: "includes_str ''src/env.d.ts'' ''use'' = usePrefix ''src/env.d.ts''"
    and d2: "includes_str ''src/env.d.ts'' ''.d.ts'' = dSuffix ''src/env.d.ts''"
    by (simp_all add: usePrefix_def dSuffix_def endsWith_def withoutExtension_def)
  have i1: "inferCategory ''src/app/api/route.ts'' = ''pages''"
    and i2: "inferCategory ''src/lib/use.ts'' = ''lib''"
    and i3: "inferCategory ''a.ts'' = ''default''"
    and i4: "inferCategory ''src/useAuth.ts'' = ''hooks''"
    and i5: "inferCategory ''src/env.d.ts'' = ''types''"
    by (simp_all add: inferCategory_def categoryRules_def)
  from getNodeType_priority [of "Some ''service''" "''src/app/api/route.ts''"] hs i1
  have g1: "getNodeType ''src/app/api/route.ts'' (Some ''service'') = ''pages''"
    by simp
  from getNodeType_priority [of "Some []" "''src/lib/use.ts''"] he i2
  have g2: "getNodeType ''src/lib/use.ts'' (Some []) = ''lib''"
    by simp
  from getNodeType_priority [of None "''a.ts''"] hn i3
  have g3: "getNodeType ''a.ts'' None = ''default''"
    by simp
  from getNodeType_priority [of None "''src/useAuth.ts''"] hn u1 d1 i4
  have g4: "getNodeType ''src/useAuth.ts'' None = ''hooks''"
    and c4: "claimedCategory ''src/useAuth.ts'' = ''hooks''"
    by simp_all
  from getNodeType_priority [of None "''src/env.d.ts''"] hn u2 d2 i5
  have g5: "getNodeType ''src/env.d.ts'' None = ''types''"
    and c5: "claimedCategory ''src/env.d.ts'' = ''types''"
    by simp_all
  from s g1 g2 g3 u1 d1 g4 c4 u2 d2 g5 c5 show ?thesis
    by (intro conjI) assumption+
qed

text \<open>
  Where the claim as worded fails. \<open>src/mouse.ts\<close> is a hook for the page because
  \<open>use\<close> occurs inside \<open>mouse\<close>, although no path segment starts with it. And the
  explicit type \<open>constructor\<close>, which is no category of the table, is answered as the
  category of a file under \<open>app/\<close>.
\<close>

theorem getNodeType_not_as_claimed:
  "getNodeType ''src/mouse.ts'' None = ''hooks'' \<and>
   usePrefix ''src/mouse.ts'' = False \<and>
   claimedCategory ''src/mouse.ts'' = ''default'' \<and>
   knownCategory ''constructor'' = False \<and>
   getNodeType ''src/app/x.ts'' (Some ''constructor'') = ''constructor'' \<and>
   claimedCategory ''src/app/x.ts'' = ''pages''"
  by (simp add: getNodeType_def inFILE_TYPES_def FILE_TYPES_def inheritedKeys_def
      knownCategory_def claimedCategory_def claimedRules_def usePrefix_def dSuffix_def
      endsWith_def withoutExtension_def)

section \<open>Toggling a category filter\<close>

lemma activeFilters_toggle_twice:
  "set (activeFilters (toggleFilter (toggleFilter s t) t)) = set (activeFilters s) \<and>
   (length (activeFilters (toggleFilter (toggleFilter s t) t)) > 0) = (length (activeFilters s) > 0)"
  by (auto simp: toggleFilter_def Let_def)

lemma restyle_toggle_twice: "restyle (toggleFilter (toggleFilter s t) t) = restyle s"
proof
  fix n
  have h: "highlightedNode (toggleFilter (toggleFilter s t) t) = highlightedNode s"
    by (simp add: toggleFilter_def Let_def)
  show "restyle (toggleFilter (toggleFilter s t) t) n = restyle s n"
    unfolding restyle_def h
    using activeFilters_toggle_twice [of s t] by simp
qed

lemma keepNode_toggle_twice: "keepNode (toggleFilter (toggleFilter s t) t) = keepNode s"
  by (rule ext) (simp add: keepNode_def toggleFilter_def Let_def)

text \<open>
  C8. Toggling the same category filter twice leaves what both variants of the page display
  as it was, node for node and style for style; when the filter was off to begin with,
  switching it on and off again gives back the very same state.
\<close>

theorem toggleFilter_twice:
  "displayNodes (toggleFilter (toggleFilter s t) t) = displayNodes s \<and>
   displayNodes2 (toggleFilter (toggleFilter s t) t) = displayNodes2 s \<and>
   (t \<notin> set (activeFilters s) \<longrightarrow> toggleFilter (toggleFilter s t) t = s)"
proof (intro conjI impI)
  have n: "nodes (toggleFilter (toggleFilter s t) t) = nodes s"
    by (simp add: toggleFilter_def Let_def)
  show "displayNodes (toggleFilter (toggleFilter s t) t) = displayNodes s"
    unfolding displayNodes_def restyle_toggle_twice n ..
  show "displayNodes2 (toggleFilter (toggleFilter s t) t) = displayNodes2 s"
    unfolding displayNodes2_def restyle_toggle_twice keepNode_toggle_twice n ..
next
  assume "t \<notin> set (activeFilters s)"
  then show "toggleFilter (toggleFilter s t) t = s"
    by (simp add: toggleFilter_def Let_def)
qed

text \<open>
  On the loaded Scenario A: with the \<open>pages\<close> filter on both nodes are dimmed, and after
  the second toggle the display is the one before the first.
\<close>

theorem toggleFilter_twice_witness:
  "''pages'' \<notin> set (activeFilters loadedA) \<and>
   map opacity (map style (displayNodes loadedA)) = [1, 1] \<and>
   map opacity (map style (displayNodes (toggleFilter loadedA ''pages''))) = [3 / 10, 3 / 10] \<and>
   displayNodes (toggleFilter (toggleFilter loadedA ''pages'') ''pages'') = displayNodes loadedA \<and>
   toggleFilter (toggleFilter loadedA ''pages'') ''pages'' = loadedA"
proof -
  have nodesA: "map (\<lambda>n. (node_id n, nodeType (data n))) (nodes loadedA) =
                  [(''a.ts'', None), (''b.ts'', None)]"
    by (simp add: loadedA_def loadData_def neverThrows_def getLayoutedElements_def layoutWith_def Let_def
        scenarioA_def build_eval fileNode_def)
  have filtersA: "activeFilters loadedA = []"
    by (simp add: loadedA_def loadData_def neverThrows_def initialState_def Let_def)
  have types: "getNodeType ''a.ts'' None = ''default''" "getNodeType ''b.ts'' None = ''default''"
    by (simp_all add: getNodeType_def)
  have op: "map opacity (map style (displayNodes s)) =
            map (\<lambda>p. if length (activeFilters s) > 0 \<and>
                         getNodeType (fst p) (snd p) \<notin> set (activeFilters s)
                      then 3 / 10 else 1)
              (map (\<lambda>n. (node_id n, nodeType (data n))) (nodes s))" for s
    by (simp add: displayNodes_def restyle_def getNodeStyle_def Let_def comp_def)
  have n1: "nodes (toggleFilter loadedA ''pages'') = nodes loadedA"
    by (simp add: toggleFilter_def Let_def)
  have f1: "activeFilters (toggleFilter loadedA ''pages'') = [''pages'']"
    by (simp add: toggleFilter_def Let_def filtersA)
  have off: "''pages'' \<notin> set (activeFilters loadedA)"
    by (simp add: filtersA)
  have a: "map opacity (map style (displayNodes loadedA)) = [1, 1]"
    unfolding op nodesA by (simp add: filtersA)
  have b: "map opacity (map style (displayNodes (toggleFilter loadedA ''pages''))) = [3 / 10, 3 / 10]"
    unfolding op n1 nodesA by (simp add: f1 types)
  from toggleFilter_twice [of loadedA "''pages''"] off a b show ?thesis
    by simp
qed

section \<open>Searching for nothing\<close>

lemma whiteSpace_prefix_free:
  "list_all (\<lambda>w. \<forall>t. find (\<lambda>v. startsWith (w @ t) v) whiteSpace = Some w) whiteSpace"
  unfolding whiteSpace_def by simp

lemma find_whiteSpace:
  "w \<in> set whiteSpace \<Longrightarrow> find (\<lambda>v. startsWith (w @ t) v) whiteSpace = Some w"
  using whiteSpace_prefix_free by (simp add: list_all_iff)

lemma whiteSpace_nonempty: "w \<in> set whiteSpace \<Longrightarrow> w \<noteq> []"
proof -
  have "list_all (\<lambda>w. w \<noteq> []) whiteSpace"
    unfolding whiteSpace_def by simp
  then show "w \<in> set whiteSpace \<Longrightarrow> w \<noteq> []"
    by (simp add: list_all_iff)
qed

lemma startsWith_Nil: "startsWith [] w = (w = [])"
  by (cases w) simp_all

lemma stripTokens_empty: "stripTokens toks [] = []"
proof (cases "find (\<lambda>w. startsWith [] w) toks")
  case None
  then show ?thesis
    by (subst stripTokens.simps) simp
next
  case (Some w)
  then have "w = []"
    by (auto simp: startsWith_Nil dest: find_SomeD)
  with Some show ?thesis
    by (subst stripTokens.simps) simp
qed

lemma startsWith_append: "startsWith s w \<Longrightarrow> s = w @ drop (length w) s"
  by (induction s w rule: startsWith.induct) auto

lemma stripTokens_whiteSpaceOnly: "whiteSpaceOnly s \<Longrightarrow> stripTokens whiteSpace s = []"
proof (induction s rule: whiteSpaceOnly.induct)
  case (1 s)
  show ?case
  proof (cases "s = []")
    case True
    then show ?thesis
      by (simp add: stripTokens_empty)
  next
    case False
    with "1.prems" obtain w where w: "w \<in> set whiteSpace" "w \<noteq> []" "startsWith s w"
      and rest: "whiteSpaceOnly (drop (length w) s)"
      by (subst (asm) whiteSpaceOnly.simps) (auto simp: list_ex_iff split: if_splits)
    from w(3) have s: "s = w @ drop (length w) s"
      by (rule startsWith_append)
    have "find (\<lambda>v. startsWith s v) whiteSpace = Some w"
      by (subst s) (rule find_whiteSpace [OF w(1)])
    then have "stripTokens whiteSpace s = stripTokens whiteSpace (drop (length w) s)"
      by (subst stripTokens.simps) (simp add: w(2))
    also have "\<dots> = []"
      using w rest by (intro "1.IH") auto
    finally show ?thesis .
  qed
qed

lemma trim_whiteSpaceOnly: "whiteSpaceOnly s \<Longrightarrow> trim s = []"
proof -
  assume "whiteSpaceOnly s"
  then have "trimStart s = []"
    unfolding trimStart_def by (rule stripTokens_whiteSpaceOnly)
  moreover have "stripTokens (map rev whiteSpace) [] = []"
    by (rule stripTokens_empty)
  ultimately show ?thesis
    by (simp add: trim_def trimEnd_def)
qed

text \<open>
  C9. In the first variant of the page, a search term that is empty or made of white space
  only, or any term while no search index exists, records the term, clears the highlight,
  empties the result list and hides the result panel; nodes, edges and everything else in
  the state stay as they were.
\<close>

theorem handleSearch_blank:
  assumes "whiteSpaceOnly term \<or> fuse s = None"
  shows "handleSearch s term =
           s\<lparr>searchTerm := term, highlightedNode := None, searchResults := [],
             showSearchResults := False\<rparr> \<and>
         highlightedNode (handleSearch s term) = None \<and>
         searchResults (handleSearch s term) = [] \<and>
         showSearchResults (handleSearch s term) = False \<and>
         nodes (handleSearch s term) = nodes s \<and>
         edges (handleSearch s term) = edges s \<and>
         originalNodes (handleSearch s term) = originalNodes s"
proof -
  from assms have "trim term = [] \<or> fuse s = None"
    by (auto simp: trim_whiteSpaceOnly)
  then show ?thesis
    by (simp add: handleSearch_def Let_def)
qed

text \<open>
  Two blanks and a tab, typed into a page that shows results for an earlier search and has
  an index.
\<close>

theorem handleSearch_blank_witness:
  "whiteSpaceOnly [CHR 0x20, CHR 0x20, CHR 0x09] \<and>
   fuse (loadedA\<lparr>highlightedNode := Some ''a.ts'', searchResults := nodes loadedA,
                 showSearchResults := True\<rparr>) \<noteq> None \<and>
   highlightedNode
     (handleSearch (loadedA\<lparr>highlightedNode := Some ''a.ts'', searchResults := nodes loadedA,
                            showSearchResults := True\<rparr>) [CHR 0x20, CHR 0x20, CHR 0x09]) = None \<and>
   searchResults
     (handleSearch (loadedA\<lparr>highlightedNode := Some ''a.ts'', searchResults := nodes loadedA,
                            showSearchResults := True\<rparr>) [CHR 0x20, CHR 0x20, CHR 0x09]) = [] \<and>
   showSearchResults
     (handleSearch (loadedA\<lparr>highlightedNode := Some ''a.ts'', searchResults := nodes loadedA,
                            showSearchResults := True\<rparr>) [CHR 0x20, CHR 0x20, CHR 0x09]) = False \<and>
   map node_id (nodes
     (handleSearch (loadedA\<lparr>highlightedNode := Some ''a.ts'', searchResults := nodes loadedA,
                            showSearchResults := True\<rparr>) [CHR 0x20, CHR 0x20, CHR 0x09])) =
     [''a.ts'', ''b.ts'']"
proof -
  let ?s = "loadedA\<lparr>highlightedNode := Some ''a.ts'', searchResults := nodes loadedA,
                    showSearchResults := True\<rparr>"
  have ws: "whiteSpaceOnly [CHR 0x20, CHR 0x20, CHR 0x09]"
    by (simp add: whiteSpaceOnly.simps whiteSpace_def)
  have idx: "fuse ?s \<noteq> None"
    by (simp add: loadedA_def loadData_def neverThrows_def Let_def)
  have ns: "map node_id (nodes ?s) = [''a.ts'', ''b.ts'']"
    by (simp add: loadedA_def loadData_def neverThrows_def getLayoutedElements_def layoutWith_def Let_def
        scenarioA_def build_eval fileNode_def comp_def)
  from handleSearch_blank [of "[CHR 0x20, CHR 0x20, CHR 0x09]" ?s] ws
  have "highlightedNode (handleSearch ?s [CHR 0x20, CHR 0x20, CHR 0x09]) = None"
    and "searchResults (handleSearch ?s [CHR 0x20, CHR 0x20, CHR 0x09]) = []"
    and "showSearchResults (handleSearch ?s [CHR 0x20, CHR 0x20, CHR 0x09]) = False"
    and "nodes (handleSearch ?s [CHR 0x20, CHR 0x20, CHR 0x09]) = nodes ?s"
    by blast+
  with ws idx ns show ?thesis
    by simp
qed

section \<open>The Docker filters of the second variant\<close>

lemma isDockerNode_restyle: "isDockerNode (restyle s n) = isDockerNode n"
  by (simp add: isDockerNode_def restyle_def)

lemma node_id_restyle: "node_id (restyle s n) = node_id n"
  by (simp add: restyle_def)

lemma nodeHasDockerIntegration_record:
  "nodeHasDockerIntegration dd n \<Longrightarrow>
     \<exists>a. (map_of dd (''github:'' @ node_id n) = Some a \<or> map_of dd (node_id n) = Some a) \<and>
         hasDockerIntegration a"
  by (auto simp: nodeHasDockerIntegration_def split: option.splits)

text \<open>
  C5, as the code has it. With the Docker-only filter on, a displayed node is a Docker
  capability node or its identifier (with or without the \<open>github:\<close> prefix) has an
  analysis record whose flag is set; with Docker-node visibility off, no displayed node is a
  Docker capability node; every displayed node is a restyled node of the base graph. The
  edges are handed to the rendering surface as they are: the derivation excludes no edge.
\<close>

theorem displayGraph2_filters:
  "(showDockerOnly s \<longrightarrow>
      (\<forall>n \<in> set (fst (displayGraph2 s)).
         isDockerNode n \<or>
         (\<exists>a. (map_of (dockerAnalysis s) (''github:'' @ node_id n) = Some a \<or>
               map_of (dockerAnalysis s) (node_id n) = Some a) \<and>
              hasDockerIntegration a))) \<and>
   (\<not> showDockerNodes s \<longrightarrow> (\<forall>n \<in> set (fst (displayGraph2 s)). \<not> isDockerNode n)) \<and>
   (\<forall>n \<in> set (fst (displayGraph2 s)). \<exists>m \<in> set (nodes s). n = restyle s m) \<and>
   snd (displayGraph2 s) = edges s"
proof (intro conjI impI ballI)
  fix n
  assume only: "showDockerOnly s" and n: "n \<in> set (fst (displayGraph2 s))"
  from n obtain m where m: "m \<in> set (nodes s)" "keepNode s m" "n = restyle s m"
    by (auto simp: displayGraph2_def displayNodes2_def)
  from m(2) only have "isDockerNode m \<or> nodeHasDockerIntegration (dockerAnalysis s) m"
    by (auto simp: keepNode_def split: if_splits)
  then show "isDockerNode n \<or>
         (\<exists>a. (map_of (dockerAnalysis s) (''github:'' @ node_id n) = Some a \<or>
               map_of (dockerAnalysis s) (node_id n) = Some a) \<and>
              hasDockerIntegration a)"
    unfolding m(3) isDockerNode_restyle node_id_restyle
    using nodeHasDockerIntegration_record by blast
next
  fix n
  assume hidden: "\<not> showDockerNodes s" and n: "n \<in> set (fst (displayGraph2 s))"
  from n obtain m where m: "m \<in> set (nodes s)" "keepNode s m" "n = restyle s m"
    by (auto simp: displayGraph2_def displayNodes2_def)
  from m(2) hidden have "\<not> isDockerNode m"
    by (auto simp: keepNode_def split: if_splits)
  then show "\<not> isDockerNode n"
    unfolding m(3) isDockerNode_restyle .
next
  fix n
  assume "n \<in> set (fst (displayGraph2 s))"
  then show "\<exists>m \<in> set (nodes s). n = restyle s m"
    by (auto simp: displayGraph2_def displayNodes2_def)
next
  show "snd (displayGraph2 s) = edges s"
    by (simp add: displayGraph2_def)
qed

lemma loadedA2_plain: "list_all (\<lambda>n. nodeType (data n) = None) (nodes loadedA2)"
  by (simp add: loadedA2_def loadData2_def neverThrows_def getLayoutedElements2_def layoutWith_def Let_def
      scenarioA_def build_eval fileNode_def)

lemma loadedA2_edges:
  "map source (edges loadedA2) = [''a.ts''] \<and> map target (edges loadedA2) = [''b.ts'']"
  by (simp add: loadedA2_def loadData2_def neverThrows_def getLayoutedElements2_def layoutWith_def Let_def
      scenarioA_def build_eval)

lemma dockerOnly_loadedA2:
  "showDockerOnly (toggleDockerFilter loadedA2 files) \<and>
   dockerAnalysis (toggleDockerFilter loadedA2 files) = [] \<and>
   nodes (toggleDockerFilter loadedA2 files) = nodes loadedA2 \<and>
   edges (toggleDockerFilter loadedA2 files) = edges loadedA2"
  by (simp add: toggleDockerFilter_def loadedA2_def loadData2_def neverThrows_def initialState_def Let_def)

lemma keepNode_plain_file:
  "showDockerOnly s \<Longrightarrow> dockerAnalysis s = [] \<Longrightarrow> nodeType (data n) = None \<Longrightarrow> \<not> keepNode s n"
  by (simp add: keepNode_def isDockerNode_def nodeHasDockerIntegration_def)

lemma dockerOnly_loadedA2_hides_all:
  "filter (keepNode (toggleDockerFilter loadedA2 files)) (nodes (toggleDockerFilter loadedA2 files)) = []"
  using loadedA2_plain dockerOnly_loadedA2 keepNode_plain_file
  by (simp add: filter_empty_conv list_all_iff)

lemma filteredB2_state:
  "showDockerOnly filteredB2 \<and> \<not> showDockerNodes filteredB2 \<and>
   dockerAnalysis filteredB2 = scenarioB \<and>
   map node_id (nodes filteredB2) =
     [''a.ts'', ''b.ts'', ''docker_api_a.ts_read_0'', ''docker_tool_a.ts_compose_0''] \<and>
   map nodeType (map data (nodes filteredB2)) =
     [None, None, Some ''docker_api'', Some ''docker_tool''] \<and>
   map edge_id (edges filteredB2) =
     [''a.ts->b.ts'', ''a.ts->docker_api_a.ts_read_0'', ''a.ts->docker_tool_a.ts_compose_0'']"
  by (simp add: filteredB2_def loadedB2_def toggleDockerFilter_def loadData2_def neverThrows_def
      getLayoutedElements2_def layoutWith_def initialState_def scenarioA_def scenarioB_def
      readApi_def build_eval fileNode_def dockerApiNode_def dockerToolNode_def)

lemma displayNodes2_ids:
  "map node_id (displayNodes2 s) = map node_id (filter (keepNode s) (nodes s))"
  by (simp add: displayNodes2_def comp_def node_id_restyle)

lemma filteredB2_displayed: "map node_id (fst (displayGraph2 filteredB2)) = [''a.ts'']"
  by (simp add: displayGraph2_def displayNodes2_ids keepNode_def isDockerNode_def
      nodeHasDockerIntegration_def filteredB2_def loadedB2_def toggleDockerFilter_def
      loadData2_def neverThrows_def getLayoutedElements2_def layoutWith_def initialState_def scenarioA_def
      scenarioB_def readApi_def build_eval fileNode_def dockerApiNode_def dockerToolNode_def)

text \<open>
  Scenario A's elements with Scenario B's annotations, Docker-only filter on and Docker
  nodes off: of the four nodes only \<open>a.ts\<close> is displayed (it has a flagged record under
  \<open>github:a.ts\<close>), and all three edges are.
\<close>

theorem displayGraph2_filters_witness:
  "showDockerOnly filteredB2 \<and> \<not> showDockerNodes filteredB2 \<and>
   map node_id (fst (displayGraph2 filteredB2)) = [''a.ts''] \<and>
   map isDockerNode (fst (displayGraph2 filteredB2)) = [False] \<and>
   map_option hasDockerIntegration (map_of (dockerAnalysis filteredB2) ''github:a.ts'') = Some True \<and>
   map edge_id (snd (displayGraph2 filteredB2)) =
     [''a.ts->b.ts'', ''a.ts->docker_api_a.ts_read_0'', ''a.ts->docker_tool_a.ts_compose_0'']"
proof -
  note ids = filteredB2_displayed
  from displayGraph2_filters [of filteredB2] filteredB2_state
  have hidden: "\<forall>n \<in> set (fst (displayGraph2 filteredB2)). \<not> isDockerNode n"
    and es: "snd (displayGraph2 filteredB2) = edges filteredB2"
    by blast+
  from ids obtain n where n: "fst (displayGraph2 filteredB2) = [n]"
    by (cases "fst (displayGraph2 filteredB2)") auto
  with hidden have "map isDockerNode (fst (displayGraph2 filteredB2)) = [False]"
    by simp
  with ids es filteredB2_state show ?thesis
    by (simp add: scenarioB_def)
qed

text \<open>
  Scenario A loaded with no annotations and the Docker-only filter switched on: no node is
  displayed, so both endpoints of the edge are excluded, and the edge is displayed all the
  same.
\<close>

theorem displayGraph2_keeps_edges:
  "showDockerOnly (toggleDockerFilter loadedA2 files) \<and>
   map node_id (fst (displayGraph2 (toggleDockerFilter loadedA2 files))) = [] \<and>
   map source (snd (displayGraph2 (toggleDockerFilter loadedA2 files))) = [''a.ts''] \<and>
   map target (snd (displayGraph2 (toggleDockerFilter loadedA2 files))) = [''b.ts'']"
  using dockerOnly_loadedA2 dockerOnly_loadedA2_hides_all loadedA2_edges
  by (simp add: displayGraph2_def displayNodes2_def)

section \<open>Layout calls share one graph object\<close>

lemma keys_setNode:
  "set (map fst (dagre_nodes (setNode g v l))) = insert v (set (map fst (dagre_nodes g)))"
  unfolding setNode_def using map_fst_map_set [of "dagre_nodes g" v "Some l"] by simp

lemma keys_foldl_setNode:
  "set (map fst (dagre_nodes (foldl (\<lambda>g n. setNode g (node_id n) l) g ns))) =
     set (map fst (dagre_nodes g)) \<union> set (map node_id ns)"
proof (induction ns arbitrary: g)
  case Nil
  then show ?case by simp
next
  case (Cons n ns)
  show ?case
    unfolding foldl_Cons Cons.IH keys_setNode by auto
qed

lemma keys_setEdge: "set (map fst (dagre_nodes g)) \<subseteq> set (map fst (dagre_nodes (setEdge g v w)))"
  by (auto simp: setEdge_def ensureNode_def Let_def)

lemma keys_foldl_setEdge:
  "set (map fst (dagre_nodes g)) \<subseteq>
     set (map fst (dagre_nodes (foldl (\<lambda>g e. setEdge g (source e) (target e)) g es)))"
proof (induction es arbitrary: g)
  case Nil
  then show ?case by simp
next
  case (Cons e es)
  show ?case
    using keys_setEdge [of g "source e" "target e"] Cons.IH [of "setEdge g (source e) (target e)"]
    by auto
qed

text \<open>Whatever was registered before a layout call is still registered after it.\<close>

lemma layoutWith_accumulates:
  "set (map fst (dagre_nodes g)) \<union> set (map node_id ns) \<subseteq>
     set (map fst (dagre_nodes (fst (layoutWith cfg layout g ns es))))"
proof -
  let ?g2 = "foldl (\<lambda>g n. setNode g (node_id n) (nodeWidth, nodeHeight)) (setGraph g cfg) ns"
  have "set (map fst (dagre_nodes ?g2)) = set (map fst (dagre_nodes g)) \<union> set (map node_id ns)"
    unfolding keys_foldl_setNode by (simp add: setGraph_def)
  then show ?thesis
    using keys_foldl_setEdge [of ?g2 es] by (simp add: layoutWith_def Let_def)
qed

text \<open>
  C3. The build is a function of its two inputs, and one layout call is a function of its
  arguments and of the graph object it finds. But the graph object is shared: after a first
  call for node \<open>a\<close>, a call for node \<open>b\<close> alone runs the layout on a graph that
  holds both \<open>a\<close> and \<open>b\<close>, and the coordinates of \<open>b\<close> are the ones the layout
  gives it there; on a fresh graph object the layout sees \<open>b\<close> only.
\<close>

theorem getLayoutedElements_shared_graph:
  "fst (getLayoutedElements layout
          (fst (getLayoutedElements layout dagreGraph [fileNode ''a'' (nodeDescriptor ''a'')] []))
          [fileNode ''b'' (nodeDescriptor ''b'')] []) =
     \<lparr>graph_label = Some (''LR'', 30, 300),
      dagre_nodes = [(''a'', Some (200, 50)), (''b'', Some (200, 50))],
      dagre_edges = []\<rparr> \<and>
   map position (fst (snd (getLayoutedElements layout
          (fst (getLayoutedElements layout dagreGraph [fileNode ''a'' (nodeDescriptor ''a'')] []))
          [fileNode ''b'' (nodeDescriptor ''b'')] []))) =
     [(fst (layout \<lparr>graph_label = Some (''LR'', 30, 300),
                    dagre_nodes = [(''a'', Some (200, 50)), (''b'', Some (200, 50))],
                    dagre_edges = []\<rparr> ''b'') - 100,
       snd (layout \<lparr>graph_label = Some (''LR'', 30, 300),
                    dagre_nodes = [(''a'', Some (200, 50)), (''b'', Some (200, 50))],
                    dagre_edges = []\<rparr> ''b'') - 25)] \<and>
   map position (fst (snd (getLayoutedElements layout dagreGraph
          [fileNode ''b'' (nodeDescriptor ''b'')] []))) =
     [(fst (layout \<lparr>graph_label = Some (''LR'', 30, 300),
                    dagre_nodes = [(''b'', Some (200, 50))],
                    dagre_edges = []\<rparr> ''b'') - 100,
       snd (layout \<lparr>graph_label = Some (''LR'', 30, 300),
                    dagre_nodes = [(''b'', Some (200, 50))],
                    dagre_edges = []\<rparr> ''b'') - 25)]"
  by (simp add: getLayoutedElements_def layoutWith_def Let_def dagreGraph_def setGraph_def
      setNode_def nodeWidth_def nodeHeight_def fileNode_def)

section \<open>Counting the capabilities of a file\<close>



















end
